theory Spec2Isabelle
  imports Main "HOL-Library.AList"
begin

section \<open>Python values and exceptions\<close>

text \<open>
  The consumption reports handed to \<open>ResourceTracker.add_consumption\<close> are whatever the
  storage client returned: \<open>None\<close>, a mapping, a list, or anything else. They are modelled as
  JSON-like values. A Python \<open>dict\<close> is an association list in insertion order, looked up
  with \<open>map_of\<close>; a real \<open>dict\<close> has no repeated key. Capacity units are modelled as
  exact integers.
\<close>

datatype pyval =
    PNone
  | PNum int
  | PStr string
  | PList "pyval list"
  | PDict "(string \<times> pyval) list"

text \<open>An exception carries the text that \<open>str(e)\<close> gives.\<close>

datatype py_error =
    AttributeError string
  | TypeError string
  | ClientError string

type_synonym 'a res = "py_error + 'a"

fun str_exc :: "py_error \<Rightarrow> string" where
  "str_exc (AttributeError m) = m"
| "str_exc (TypeError m) = m"
| "str_exc (ClientError m) = m"

fun type_name :: "pyval \<Rightarrow> string" where
  "type_name PNone = ''NoneType''"
| "type_name (PNum n) = ''int''"
| "type_name (PStr s) = ''str''"
| "type_name (PList xs) = ''list''"
| "type_name (PDict d) = ''dict''"

definition no_attribute :: "pyval \<Rightarrow> string \<Rightarrow> py_error" where
  "no_attribute v a =
     AttributeError ([CHR 0x27] @ type_name v @ [CHR 0x27] @ '' object has no attribute ''
                     @ [CHR 0x27] @ a @ [CHR 0x27])"

definition bad_operand :: "pyval \<Rightarrow> py_error" where
  "bad_operand v =
     TypeError (''unsupported operand type(s) for +=: '' @ [CHR 0x27] @ ''int'' @ [CHR 0x27]
                @ '' and '' @ [CHR 0x27] @ type_name v @ [CHR 0x27])"

text \<open>\<open>k in d\<close> and \<open>d.get(k, default)\<close> on a dict.\<close>

definition has_key :: "(string \<times> pyval) list \<Rightarrow> string \<Rightarrow> bool" where
  "has_key d k = (map_of d k \<noteq> None)"

definition dict_get :: "(string \<times> pyval) list \<Rightarrow> string \<Rightarrow> pyval \<Rightarrow> pyval" where
  "dict_get d k dflt = (case map_of d k of None \<Rightarrow> dflt | Some v \<Rightarrow> v)"

text \<open>\<open>v.get(k, default)\<close> on any value: only a dict has the method.\<close>

fun py_get :: "pyval \<Rightarrow> string \<Rightarrow> pyval \<Rightarrow> pyval res" where
  "py_get (PDict d) k dflt = Inr (dict_get d k dflt)"
| "py_get v k dflt = Inl (no_attribute v ''get'')"

text \<open>\<open>v.items()\<close> on any value.\<close>

fun py_items :: "pyval \<Rightarrow> (string \<times> pyval) list res" where
  "py_items (PDict d) = Inr d"
| "py_items v = Inl (no_attribute v ''items'')"

text \<open>\<open>v == 0\<close>: true only of the number zero.\<close>

fun eq0 :: "pyval \<Rightarrow> bool" where
  "eq0 (PNum n) = (n = 0)"
| "eq0 v = False"

text \<open>Truthiness, as \<open>a or b\<close> tests it.\<close>

fun truthy :: "pyval \<Rightarrow> bool" where
  "truthy PNone = False"
| "truthy (PNum n) = (n \<noteq> 0)"
| "truthy (PStr s) = (s \<noteq> [])"
| "truthy (PList xs) = (xs \<noteq> [])"
| "truthy (PDict d) = (d \<noteq> [])"

text \<open>
  The right operand of \<open>acc += v\<close> where \<open>acc\<close> holds a number: a \<open>TypeError\<close> unless
  \<open>v\<close> is a number.
\<close>

fun operand :: "pyval \<Rightarrow> int res" where
  "operand (PNum n) = Inr n"
| "operand v = Inl (bad_operand v)"

text \<open>\<open>s.startswith(p)\<close>.\<close>

definition starts_with :: "string \<Rightarrow> string \<Rightarrow> bool" where
  "starts_with s p = (take (length p) s = p)"

section \<open>The resource tracker\<close>

text \<open>
  \<open>ResourceTracker\<close> is the same class in \<open>join_game_with_opengamesindex.py\<close> and in
  \<open>query_user_games.py\<close>, but for \<open>add_consumption\<close>. Its \<open>start_time\<close> is a clock reading
  and is left out.
\<close>

record usage =
  rcu :: int
  wcu :: int

record tracker =
  total_rcu :: int
  total_wcu :: int
  table_consumption :: usage
  gsi_consumption :: "(string \<times> usage) list"
  operations :: "string list"
  status :: string
  error :: "string option"

definition zero_usage :: usage where
  "zero_usage = \<lparr>rcu = 0, wcu = 0\<rparr>"

definition reset :: tracker where
  "reset = \<lparr>total_rcu = 0, total_wcu = 0, table_consumption = zero_usage,
            gsi_consumption = [], operations = [], status = ''success'', error = None\<rparr>"

definition set_error :: "string \<Rightarrow> tracker \<Rightarrow> tracker" where
  "set_error error_msg self = self\<lparr>status := ''failed'', error := Some error_msg\<rparr>"

text \<open>
  A method of the tracker mutates it in place and may raise half-way: the mutations made
  before the exception stay. A method is therefore a function from the tracker to a result
  (the exception, or the value) together with the tracker as it then stands.
\<close>

type_synonym 'a prog = "tracker \<Rightarrow> 'a res \<times> tracker"

definition ret :: "'a \<Rightarrow> 'a prog" where
  "ret x = (\<lambda>self. (Inr x, self))"

definition lift :: "'a res \<Rightarrow> 'a prog" where
  "lift r = (\<lambda>self. (r, self))"

definition bnd :: "'a prog \<Rightarrow> ('a \<Rightarrow> 'b prog) \<Rightarrow> 'b prog" where
  "bnd m f = (\<lambda>self. case m self of
                (Inl e, self') \<Rightarrow> (Inl e, self')
              | (Inr x, self') \<Rightarrow> f x self')"

text \<open>\<open>self.table_consumption['rcu'] += v\<close> and its siblings; each returns the number added.\<close>

definition add_table_rcu :: "pyval \<Rightarrow> int prog" where
  "add_table_rcu v = (\<lambda>self. case operand v of
       Inl e \<Rightarrow> (Inl e, self)
     | Inr n \<Rightarrow> (Inr n, self\<lparr>table_consumption :=
                   (table_consumption self)\<lparr>rcu := rcu (table_consumption self) + n\<rparr>\<rparr>))"

definition add_table_wcu :: "pyval \<Rightarrow> int prog" where
  "add_table_wcu v = (\<lambda>self. case operand v of
       Inl e \<Rightarrow> (Inl e, self)
     | Inr n \<Rightarrow> (Inr n, self\<lparr>table_consumption :=
                   (table_consumption self)\<lparr>wcu := wcu (table_consumption self) + n\<rparr>\<rparr>))"

definition add_total_rcu :: "pyval \<Rightarrow> unit prog" where
  "add_total_rcu v = (\<lambda>self. case operand v of
       Inl e \<Rightarrow> (Inl e, self)
     | Inr n \<Rightarrow> (Inr (), self\<lparr>total_rcu := total_rcu self + n\<rparr>))"

definition add_total_wcu :: "pyval \<Rightarrow> unit prog" where
  "add_total_wcu v = (\<lambda>self. case operand v of
       Inl e \<Rightarrow> (Inl e, self)
     | Inr n \<Rightarrow> (Inr (), self\<lparr>total_wcu := total_wcu self + n\<rparr>))"

text \<open>
  \<open>if gsi_name not in self.gsi_consumption: self.gsi_consumption[gsi_name] = {'rcu': 0, 'wcu': 0}\<close>.
  A new key goes to the end, as in a Python dict.
\<close>

definition gsi_ensure :: "string \<Rightarrow> unit prog" where
  "gsi_ensure gsi_name = (\<lambda>self.
     (Inr (), if map_of (gsi_consumption self) gsi_name = None
              then self\<lparr>gsi_consumption := gsi_consumption self @ [(gsi_name, zero_usage)]\<rparr>
              else self))"

text \<open>The entry of an index, read after \<open>gsi_ensure\<close> has made sure it is there.\<close>

definition gsi_usage_of :: "(string \<times> usage) list \<Rightarrow> string \<Rightarrow> usage" where
  "gsi_usage_of g gsi_name = (case map_of g gsi_name of None \<Rightarrow> zero_usage | Some u \<Rightarrow> u)"

definition add_gsi_rcu :: "string \<Rightarrow> pyval \<Rightarrow> int prog" where
  "add_gsi_rcu gsi_name v = (\<lambda>self. case operand v of
       Inl e \<Rightarrow> (Inl e, self)
     | Inr n \<Rightarrow>
         (let u = gsi_usage_of (gsi_consumption self) gsi_name in
          (Inr n, self\<lparr>gsi_consumption :=
                    AList.update gsi_name (u\<lparr>rcu := rcu u + n\<rparr>) (gsi_consumption self)\<rparr>)))"

definition add_gsi_wcu :: "string \<Rightarrow> pyval \<Rightarrow> int prog" where
  "add_gsi_wcu gsi_name v = (\<lambda>self. case operand v of
       Inl e \<Rightarrow> (Inl e, self)
     | Inr n \<Rightarrow>
         (let u = gsi_usage_of (gsi_consumption self) gsi_name in
          (Inr n, self\<lparr>gsi_consumption :=
                    AList.update gsi_name (u\<lparr>wcu := wcu u + n\<rparr>) (gsi_consumption self)\<rparr>)))"

definition append_operation :: "string \<Rightarrow> unit prog" where
  "append_operation operation = (\<lambda>self.
     (Inr (), self\<lparr>operations := operations self @ [operation]\<rparr>))"

section \<open>add_consumption\<close>

text \<open>
  The read/write naming rule. \<open>join_game_with_opengamesindex.py\<close> tests
  \<open>operation.startswith('get_') or operation.startswith('query_') or operation.startswith('scan_')\<close>
  at each of its uses; \<open>query_user_games.py\<close> tests
  \<open>operation.startswith('get_') or operation.startswith('query_')\<close>.
\<close>

definition is_read_join :: "string \<Rightarrow> bool" where
  "is_read_join operation =
     (starts_with operation ''get_'' \<or> starts_with operation ''query_''
      \<or> starts_with operation ''scan_'')"

definition is_read_query :: "string \<Rightarrow> bool" where
  "is_read_query operation =
     (starts_with operation ''get_'' \<or> starts_with operation ''query_'')"

text \<open>
  The read/write pair of one secondary-index entry (\<open>rd\<close> is the outcome of the naming rule):
  \<^verbatim>\<open>
  gsi_rcu = gsi_data.get('ReadCapacityUnits', 0)
  gsi_wcu = gsi_data.get('WriteCapacityUnits', 0)
  if gsi_rcu == 0 and gsi_wcu == 0:
      gsi_capacity = gsi_data.get('CapacityUnits', 0)
      if <read-shaped>: gsi_rcu = gsi_capacity
      else: gsi_wcu = gsi_capacity
  \<close>
\<close>

definition gsi_units :: "bool \<Rightarrow> pyval \<Rightarrow> (pyval \<times> pyval) res" where
  "gsi_units rd gsi_data =
     (case py_get gsi_data ''ReadCapacityUnits'' (PNum 0) of
        Inl e \<Rightarrow> Inl e
      | Inr gsi_rcu \<Rightarrow>
     (case py_get gsi_data ''WriteCapacityUnits'' (PNum 0) of
        Inl e \<Rightarrow> Inl e
      | Inr gsi_wcu \<Rightarrow>
         if eq0 gsi_rcu \<and> eq0 gsi_wcu then
           (case py_get gsi_data ''CapacityUnits'' (PNum 0) of
              Inl e \<Rightarrow> Inl e
            | Inr gsi_capacity \<Rightarrow>
                if rd then Inr (gsi_capacity, gsi_wcu) else Inr (gsi_rcu, gsi_capacity))
         else Inr (gsi_rcu, gsi_wcu)))"

text \<open>
  The read/write pair of the base table:
  \<^verbatim>\<open>
  table_rcu = consumed_capacity.get('Table', {}).get('ReadCapacityUnits', 0)
  table_wcu = consumed_capacity.get('Table', {}).get('WriteCapacityUnits', 0)
  if table_rcu == 0 and table_wcu == 0 and 'Table' in consumed_capacity:
      table_capacity = consumed_capacity['Table'].get('CapacityUnits', 0)
      if <read-shaped>: table_rcu = table_capacity
      else: table_wcu = table_capacity
  \<close>
\<close>

definition table_units :: "bool \<Rightarrow> (string \<times> pyval) list \<Rightarrow> (pyval \<times> pyval) res" where
  "table_units rd consumed_capacity =
     (case py_get (dict_get consumed_capacity ''Table'' (PDict [])) ''ReadCapacityUnits'' (PNum 0) of
        Inl e \<Rightarrow> Inl e
      | Inr table_rcu \<Rightarrow>
     (case py_get (dict_get consumed_capacity ''Table'' (PDict [])) ''WriteCapacityUnits'' (PNum 0) of
        Inl e \<Rightarrow> Inl e
      | Inr table_wcu \<Rightarrow>
         if eq0 table_rcu \<and> eq0 table_wcu \<and> has_key consumed_capacity ''Table'' then
           \<comment> \<open>the key is there: \<open>consumed_capacity['Table']\<close> is what \<open>get\<close> returns\<close>
           (case py_get (dict_get consumed_capacity ''Table'' (PDict [])) ''CapacityUnits'' (PNum 0) of
              Inl e \<Rightarrow> Inl e
            | Inr table_capacity \<Rightarrow>
                if rd then Inr (table_capacity, table_wcu) else Inr (table_rcu, table_capacity))
         else Inr (table_rcu, table_wcu)))"

text \<open>
  The loop over \<open>consumed_capacity['GlobalSecondaryIndexes'].items()\<close>. It adds each index's
  pair to \<open>self.gsi_consumption\<close> and to the two running sums it returns.
\<close>

fun gsi_loop :: "bool \<Rightarrow> (string \<times> pyval) list \<Rightarrow> int \<times> int \<Rightarrow> (int \<times> int) prog" where
  "gsi_loop rd [] sums = ret sums"
| "gsi_loop rd ((gsi_name, gsi_data) # rest) sums =
     bnd (lift (gsi_units rd gsi_data)) (\<lambda>(gsi_rcu, gsi_wcu).
     bnd (gsi_ensure gsi_name) (\<lambda>_.
     bnd (add_gsi_rcu gsi_name gsi_rcu) (\<lambda>r.
     bnd (add_gsi_wcu gsi_name gsi_wcu) (\<lambda>w.
     gsi_loop rd rest (fst sums + r, snd sums + w)))))"

text \<open>\<open>if 'GlobalSecondaryIndexes' in consumed_capacity: for ... in ....items(): ...\<close>\<close>

definition gsi_section :: "bool \<Rightarrow> (string \<times> pyval) list \<Rightarrow> (int \<times> int) prog" where
  "gsi_section rd consumed_capacity =
     (case map_of consumed_capacity ''GlobalSecondaryIndexes'' of
        None \<Rightarrow> ret (0, 0)
      | Some gsis \<Rightarrow> bnd (lift (py_items gsis)) (\<lambda>entries. gsi_loop rd entries (0, 0)))"

text \<open>
  The overall totals of the single-report branch, and of each list item in
  \<open>query_user_games.py\<close>:
  \<^verbatim>\<open>
  if 'CapacityUnits' in consumed_capacity:
      capacity_units = consumed_capacity.get('CapacityUnits', 0)
      if <read-shaped>: self.total_rcu += capacity_units
      else: self.total_wcu += capacity_units
  else:
      self.total_rcu += table_rcu + gsi_rcu_total
      self.total_wcu += table_wcu + gsi_wcu_total
  \<close>
\<close>

definition add_totals :: "bool \<Rightarrow> (string \<times> pyval) list \<Rightarrow> int \<times> int \<Rightarrow> int \<times> int \<Rightarrow> unit prog"
  where
  "add_totals rd consumed_capacity tbl gsi =
     (if has_key consumed_capacity ''CapacityUnits'' then
        (if rd then add_total_rcu (dict_get consumed_capacity ''CapacityUnits'' (PNum 0))
         else add_total_wcu (dict_get consumed_capacity ''CapacityUnits'' (PNum 0)))
      else
        bnd (add_total_rcu (PNum (fst tbl + fst gsi))) (\<lambda>_.
        add_total_wcu (PNum (snd tbl + snd gsi))))"

text \<open>
  One report folded into the tracker: the body of the \<open>isinstance(consumed_capacity, dict)\<close>
  branch of both scripts, and the body of the loop over the list items in
  \<open>query_user_games.py\<close>, which repeats it line for line.
\<close>

definition fold_report :: "bool \<Rightarrow> (string \<times> pyval) list \<Rightarrow> unit prog" where
  "fold_report rd consumed_capacity =
     bnd (lift (table_units rd consumed_capacity)) (\<lambda>(table_rcu, table_wcu).
     bnd (add_table_rcu table_rcu) (\<lambda>tr.
     bnd (add_table_wcu table_wcu) (\<lambda>tw.
     bnd (gsi_section rd consumed_capacity) (\<lambda>gsi.
     add_totals rd consumed_capacity (tr, tw) gsi))))"

text \<open>
  The second pass over the item's indexes that the list branch of
  \<open>join_game_with_opengamesindex.py\<close> makes when the item has no top-level \<open>CapacityUnits\<close>:
  \<^verbatim>\<open>
  item_rcu += gsi_data.get('ReadCapacityUnits', 0) or gsi_data.get('CapacityUnits', 0) if <read-shaped> else 0
  item_wcu += gsi_data.get('WriteCapacityUnits', 0) or gsi_data.get('CapacityUnits', 0) if not <read-shaped> else 0
  \<close>
  A conditional expression binds weaker than \<open>or\<close>: each right-hand side is
  \<open>(a or b) if c else 0\<close>.
\<close>

definition item_gsi_term :: "bool \<Rightarrow> string \<Rightarrow> pyval \<Rightarrow> int res" where
  "item_gsi_term cond field gsi_data =
     (if cond then
        (case py_get gsi_data field (PNum 0) of
           Inl e \<Rightarrow> Inl e
         | Inr a \<Rightarrow>
             if truthy a then operand a
             else (case py_get gsi_data ''CapacityUnits'' (PNum 0) of
                     Inl e \<Rightarrow> Inl e
                   | Inr b \<Rightarrow> operand b))
      else Inr 0)"

fun item_gsi_loop :: "bool \<Rightarrow> (string \<times> pyval) list \<Rightarrow> int \<times> int \<Rightarrow> (int \<times> int) res" where
  "item_gsi_loop rd [] item = Inr item"
| "item_gsi_loop rd ((gsi_name, gsi_data) # rest) item =
     (case item_gsi_term rd ''ReadCapacityUnits'' gsi_data of
        Inl e \<Rightarrow> Inl e
      | Inr r \<Rightarrow>
     (case item_gsi_term (\<not> rd) ''WriteCapacityUnits'' gsi_data of
        Inl e \<Rightarrow> Inl e
      | Inr w \<Rightarrow> item_gsi_loop rd rest (fst item + r, snd item + w)))"

definition item_sums :: "bool \<Rightarrow> (string \<times> pyval) list \<Rightarrow> int \<times> int \<Rightarrow> (int \<times> int) res" where
  "item_sums rd item tbl =
     (case map_of item ''GlobalSecondaryIndexes'' of
        None \<Rightarrow> Inr tbl
      | Some gsis \<Rightarrow>
          (case py_items gsis of
             Inl e \<Rightarrow> Inl e
           | Inr entries \<Rightarrow> item_gsi_loop rd entries tbl))"

text \<open>
  One list item in \<open>join_game_with_opengamesindex.py\<close>. The sums \<open>total_table_rcu\<close>,
  \<open>total_table_wcu\<close>, \<open>total_gsi_rcu\<close> and \<open>total_gsi_wcu\<close> that the source keeps are never
  read and are left out.
\<close>

definition item_report_join :: "bool \<Rightarrow> (string \<times> pyval) list \<Rightarrow> unit prog" where
  "item_report_join rd item =
     bnd (lift (table_units rd item)) (\<lambda>(table_rcu, table_wcu).
     bnd (add_table_rcu table_rcu) (\<lambda>tr.
     bnd (add_table_wcu table_wcu) (\<lambda>tw.
     bnd (gsi_section rd item) (\<lambda>_.
     if has_key item ''CapacityUnits'' then
       (if rd then add_total_rcu (dict_get item ''CapacityUnits'' (PNum 0))
        else add_total_wcu (dict_get item ''CapacityUnits'' (PNum 0)))
     else
       bnd (lift (item_sums rd item (tr, tw))) (\<lambda>(item_rcu, item_wcu).
       bnd (add_total_rcu (PNum item_rcu)) (\<lambda>_.
       add_total_wcu (PNum item_wcu)))))))"

text \<open>\<open>for item in consumed_capacity: if isinstance(item, dict): ...\<close>\<close>

fun list_loop :: "((string \<times> pyval) list \<Rightarrow> unit prog) \<Rightarrow> pyval list \<Rightarrow> unit prog" where
  "list_loop body [] = ret ()"
| "list_loop body (item # rest) =
     bnd (case item of PDict d \<Rightarrow> body d | _ \<Rightarrow> ret ()) (\<lambda>_. list_loop body rest)"

text \<open>\<open>ResourceTracker.add_consumption\<close> of \<open>join_game_with_opengamesindex.py\<close>.\<close>

definition add_consumption_join :: "string \<Rightarrow> pyval \<Rightarrow> unit prog" where
  "add_consumption_join operation consumed_capacity =
     (case consumed_capacity of
        PNone \<Rightarrow> append_operation operation
      | PDict d \<Rightarrow>
          bnd (fold_report (is_read_join operation) d) (\<lambda>_. append_operation operation)
      | PList items \<Rightarrow>
          bnd (list_loop (item_report_join (is_read_join operation)) items)
              (\<lambda>_. append_operation operation)
      | _ \<Rightarrow> append_operation operation)"

text \<open>\<open>ResourceTracker.add_consumption\<close> of \<open>query_user_games.py\<close>.\<close>

definition add_consumption_query :: "string \<Rightarrow> pyval \<Rightarrow> unit prog" where
  "add_consumption_query operation consumed_capacity =
     (case consumed_capacity of
        PNone \<Rightarrow> append_operation operation
      | PDict d \<Rightarrow>
          bnd (fold_report (is_read_query operation) d) (\<lambda>_. append_operation operation)
      | PList items \<Rightarrow>
          bnd (list_loop (fold_report (is_read_query operation)) items)
              (\<lambda>_. append_operation operation)
      | _ \<Rightarrow> append_operation operation)"

section \<open>Well-typed reports and the closed form of the normalization\<close>

text \<open>
  A report is well typed when every section the code reads has the type the code expects:
  the \<open>Table\<close> entry and every index entry, where present, are mappings whose three unit
  fields, where present, are numbers; the \<open>GlobalSecondaryIndexes\<close> section, where present,
  is a mapping; the top-level \<open>CapacityUnits\<close>, where present, is a number. Any field may be
  missing. A list may hold anything besides mappings, and those it holds must be well typed.
  The definitions after it give what the code computes on such a report as plain arithmetic,
  a missing field read as 0.
\<close>

fun is_num :: "pyval \<Rightarrow> bool" where
  "is_num (PNum n) = True"
| "is_num v = False"

fun num :: "pyval \<Rightarrow> int" where
  "num (PNum n) = n"
| "num v = 0"

definition well_typed_entry :: "pyval \<Rightarrow> bool" where
  "well_typed_entry v =
     (case v of
        PDict e \<Rightarrow> is_num (dict_get e ''ReadCapacityUnits'' (PNum 0))
                 \<and> is_num (dict_get e ''WriteCapacityUnits'' (PNum 0))
                 \<and> is_num (dict_get e ''CapacityUnits'' (PNum 0))
      | _ \<Rightarrow> False)"

definition well_typed_report :: "(string \<times> pyval) list \<Rightarrow> bool" where
  "well_typed_report d =
     (well_typed_entry (dict_get d ''Table'' (PDict []))
      \<and> (case map_of d ''GlobalSecondaryIndexes'' of
            None \<Rightarrow> True
          | Some (PDict gs) \<Rightarrow> list_all (\<lambda>g. well_typed_entry (snd g)) gs
          | Some _ \<Rightarrow> False)
      \<and> is_num (dict_get d ''CapacityUnits'' (PNum 0)))"

fun well_typed :: "pyval \<Rightarrow> bool" where
  "well_typed (PDict d) = well_typed_report d"
| "well_typed (PList items) =
     list_all (\<lambda>item. case item of PDict d \<Rightarrow> well_typed_report d | _ \<Rightarrow> True) items"
| "well_typed v = True"

definition fld :: "(string \<times> pyval) list \<Rightarrow> string \<Rightarrow> int" where
  "fld e k = num (dict_get e k (PNum 0))"

definition entry_pair :: "bool \<Rightarrow> pyval \<Rightarrow> int \<times> int" where
  "entry_pair rd v =
     (case v of
        PDict e \<Rightarrow>
          if fld e ''ReadCapacityUnits'' = 0 \<and> fld e ''WriteCapacityUnits'' = 0
          then (if rd then (fld e ''CapacityUnits'', 0) else (0, fld e ''CapacityUnits''))
          else (fld e ''ReadCapacityUnits'', fld e ''WriteCapacityUnits'')
      | _ \<Rightarrow> (0, 0))"

definition gsi_bump :: "string \<Rightarrow> int \<times> int \<Rightarrow> (string \<times> usage) list \<Rightarrow> (string \<times> usage) list" where
  "gsi_bump gsi_name p g =
     AList.update gsi_name
       \<lparr>rcu = rcu (gsi_usage_of g gsi_name) + fst p, wcu = wcu (gsi_usage_of g gsi_name) + snd p\<rparr> g"

definition gsi_fold :: "bool \<Rightarrow> (string \<times> pyval) list \<Rightarrow> (string \<times> usage) list \<Rightarrow> (string \<times> usage) list" where
  "gsi_fold rd gs g = fold (\<lambda>e. gsi_bump (fst e) (entry_pair rd (snd e))) gs g"

definition gsi_sum :: "bool \<Rightarrow> (string \<times> pyval) list \<Rightarrow> int \<times> int" where
  "gsi_sum rd gs = (sum_list (map (\<lambda>e. fst (entry_pair rd (snd e))) gs),
                    sum_list (map (\<lambda>e. snd (entry_pair rd (snd e))) gs))"

definition gsi_entries :: "(string \<times> pyval) list \<Rightarrow> (string \<times> pyval) list" where
  "gsi_entries d =
     (case map_of d ''GlobalSecondaryIndexes'' of Some (PDict gs) \<Rightarrow> gs | _ \<Rightarrow> [])"

definition table_pair :: "bool \<Rightarrow> (string \<times> pyval) list \<Rightarrow> int \<times> int" where
  "table_pair rd d = entry_pair rd (dict_get d ''Table'' (PDict []))"

definition components :: "bool \<Rightarrow> (string \<times> pyval) list \<Rightarrow> int \<times> int" where
  "components rd d =
     (fst (table_pair rd d) + fst (gsi_sum rd (gsi_entries d)),
      snd (table_pair rd d) + snd (gsi_sum rd (gsi_entries d)))"

definition total_pair :: "bool \<Rightarrow> (string \<times> pyval) list \<Rightarrow> int \<times> int" where
  "total_pair rd d =
     (if has_key d ''CapacityUnits''
      then (if rd then (fld d ''CapacityUnits'', 0) else (0, fld d ''CapacityUnits''))
      else components rd d)"

definition apply_units ::
  "int \<times> int \<Rightarrow> (string \<times> usage) list \<Rightarrow> int \<times> int \<Rightarrow> tracker \<Rightarrow> tracker" where
  "apply_units tbl g tot self =
     self\<lparr>total_rcu := total_rcu self + fst tot,
          total_wcu := total_wcu self + snd tot,
          table_consumption := \<lparr>rcu = rcu (table_consumption self) + fst tbl,
                                wcu = wcu (table_consumption self) + snd tbl\<rparr>,
          gsi_consumption := g\<rparr>"

definition apply_report :: "bool \<Rightarrow> (string \<times> pyval) list \<Rightarrow> tracker \<Rightarrow> tracker" where
  "apply_report rd d self =
     apply_units (table_pair rd d) (gsi_fold rd (gsi_entries d) (gsi_consumption self))
       (total_pair rd d) self"

definition item_term :: "bool \<Rightarrow> string \<Rightarrow> pyval \<Rightarrow> int" where
  "item_term cond field v =
     (if cond then
        (case v of
           PDict e \<Rightarrow> if fld e field \<noteq> 0 then fld e field else fld e ''CapacityUnits''
         | _ \<Rightarrow> 0)
      else 0)"

definition item_total_join :: "bool \<Rightarrow> (string \<times> pyval) list \<Rightarrow> int \<times> int" where
  "item_total_join rd d =
     (if has_key d ''CapacityUnits''
      then (if rd then (fld d ''CapacityUnits'', 0) else (0, fld d ''CapacityUnits''))
      else (fst (table_pair rd d)
              + sum_list (map (\<lambda>g. item_term rd ''ReadCapacityUnits'' (snd g)) (gsi_entries d)),
            snd (table_pair rd d)
              + sum_list (map (\<lambda>g. item_term (\<not> rd) ''WriteCapacityUnits'' (snd g)) (gsi_entries d))))"

definition apply_item_join :: "bool \<Rightarrow> (string \<times> pyval) list \<Rightarrow> tracker \<Rightarrow> tracker" where
  "apply_item_join rd d self =
     apply_units (table_pair rd d) (gsi_fold rd (gsi_entries d) (gsi_consumption self))
       (item_total_join rd d) self"

definition list_apply ::
  "((string \<times> pyval) list \<Rightarrow> tracker \<Rightarrow> tracker) \<Rightarrow> pyval list \<Rightarrow> tracker \<Rightarrow> tracker" where
  "list_apply f items self =
     fold (\<lambda>item s. case item of PDict d \<Rightarrow> f d s | _ \<Rightarrow> s) items self"

definition units_join :: "string \<Rightarrow> pyval \<Rightarrow> tracker \<Rightarrow> tracker" where
  "units_join operation cc self =
     (case cc of
        PDict d \<Rightarrow> apply_report (is_read_join operation) d self
      | PList items \<Rightarrow> list_apply (apply_item_join (is_read_join operation)) items self
      | _ \<Rightarrow> self)"

definition units_query :: "string \<Rightarrow> pyval \<Rightarrow> tracker \<Rightarrow> tracker" where
  "units_query operation cc self =
     (case cc of
        PDict d \<Rightarrow> apply_report (is_read_query operation) d self
      | PList items \<Rightarrow> list_apply (apply_report (is_read_query operation)) items self
      | _ \<Rightarrow> self)"

text \<open>
  A step of the fold keeps the operation history when it neither reads nor writes
  \<open>operations\<close>: run on a tracker with another history, it does the same and leaves that
  history in place.
\<close>

definition keeps_history :: "'a prog \<Rightarrow> bool" where
  "keeps_history m =
     (\<forall>self ops. m (self\<lparr>operations := ops\<rparr>)
                   = (fst (m self), (snd (m self))\<lparr>operations := ops\<rparr>))"

text \<open>The outcome of a run and the unit accumulators it leaves.\<close>

definition units_of :: "'a res \<times> tracker \<Rightarrow> 'a res \<times> int \<times> int \<times> usage \<times> (string \<times> usage) list" where
  "units_of p = (fst p, total_rcu (snd p), total_wcu (snd p), table_consumption (snd p),
                 gsi_consumption (snd p))"

text \<open>
  A report with its missing unit fields written out as zeros: each entry of the base table
  and of an index gets the fields it lacks, with value 0, and a report with no \<open>Table\<close> entry
  gets one. The top-level \<open>CapacityUnits\<close> is left as it is: its absence selects the sum of
  the components.
\<close>

definition zero_fields :: "(string \<times> pyval) list" where
  "zero_fields = [(''ReadCapacityUnits'', PNum 0), (''WriteCapacityUnits'', PNum 0),
                  (''CapacityUnits'', PNum 0)]"

fun zero_filled_entry :: "pyval \<Rightarrow> pyval" where
  "zero_filled_entry (PDict e) = PDict (e @ filter (\<lambda>z. map_of e (fst z) = None) zero_fields)"
| "zero_filled_entry v = v"

fun zero_filled_indexes :: "pyval \<Rightarrow> pyval" where
  "zero_filled_indexes (PDict gs) = PDict (map (\<lambda>g. (fst g, zero_filled_entry (snd g))) gs)"
| "zero_filled_indexes v = v"

definition zero_filled_report :: "(string \<times> pyval) list \<Rightarrow> (string \<times> pyval) list" where
  "zero_filled_report d =
     map (\<lambda>kv. if fst kv = ''Table'' then (fst kv, zero_filled_entry (snd kv))
                else if fst kv = ''GlobalSecondaryIndexes'' then (fst kv, zero_filled_indexes (snd kv))
                else kv) d
     @ (if map_of d ''Table'' = None then [(''Table'', zero_filled_entry (PDict []))] else [])"

fun zero_filled :: "pyval \<Rightarrow> pyval" where
  "zero_filled (PDict d) = PDict (zero_filled_report d)"
| "zero_filled (PList items) =
     PList (map (\<lambda>item. case item of PDict d \<Rightarrow> PDict (zero_filled_report d) | _ \<Rightarrow> item) items)"
| "zero_filled v = v"

text \<open>
  A report on which the list branch of \<open>join_game_with_opengamesindex.py\<close> never makes its
  second pass over the indexes: every mapping in the list carries a top-level
  \<open>CapacityUnits\<close> or has no \<open>GlobalSecondaryIndexes\<close> section.
\<close>

fun second_pass_free :: "pyval \<Rightarrow> bool" where
  "second_pass_free (PList items) =
     list_all (\<lambda>item. case item of
                        PDict d \<Rightarrow> has_key d ''CapacityUnits'' \<or> \<not> has_key d ''GlobalSecondaryIndexes''
                      | _ \<Rightarrow> True) items"
| "second_pass_free v = True"

text \<open>One call of \<open>add_consumption\<close> after another, on the same tracker.\<close>

definition then_run :: "unit prog \<Rightarrow> unit prog \<Rightarrow> unit prog" where
  "then_run m1 m2 = bnd m1 (\<lambda>_. m2)"

fun is_list :: "pyval \<Rightarrow> bool" where
  "is_list (PList items) = True"
| "is_list v = False"

text \<open>What is left of a run when the history is put aside.\<close>

definition erase :: "'a res \<times> tracker \<Rightarrow> 'a res \<times> tracker" where
  "erase p = (fst p, (snd p)\<lparr>operations := []\<rparr>)"

text \<open>Two programs that do the same but for the history, whatever history they start from.\<close>

definition same_but_history :: "'a prog \<Rightarrow> 'a prog \<Rightarrow> bool" where
  "same_but_history m m' = (\<forall>self ops. erase (m (self\<lparr>operations := ops\<rparr>)) = erase (m' self))"

text \<open>The loop body applied to one value: a mapping is folded, anything else is skipped.\<close>

definition step :: "((string \<times> pyval) list \<Rightarrow> unit prog) \<Rightarrow> pyval \<Rightarrow> unit prog" where
  "step body item = (case item of PDict d \<Rightarrow> body d | _ \<Rightarrow> ret ())"

text \<open>
  An entry that exposes a single undifferentiated figure and no separate read or write
  field; the pair a figure becomes under the naming rule; a pair added to an accumulator.
\<close>

definition single_figure :: "(string \<times> pyval) list \<Rightarrow> int \<Rightarrow> bool" where
  "single_figure e n =
     (map_of e ''ReadCapacityUnits'' = None \<and> map_of e ''WriteCapacityUnits'' = None
      \<and> map_of e ''CapacityUnits'' = Some (PNum n))"

definition classified :: "bool \<Rightarrow> int \<Rightarrow> int \<times> int" where
  "classified rd n = (if rd then (n, 0) else (0, n))"

definition add_usage :: "usage \<Rightarrow> int \<times> int \<Rightarrow> usage" where
  "add_usage u p = \<lparr>rcu = rcu u + fst p, wcu = wcu u + snd p\<rparr>"

section \<open>The store\<close>

text \<open>
  The table \<open>battle-royale\<close> has the key schema \<open>PK\<close> (hash) and \<open>SK\<close> (range), both strings
  (\<open>create_table_od.py\<close>). An item maps attribute names to typed values; the store maps a
  key to the item under it.
\<close>

datatype attrval = S string | N int

type_synonym item = "(string \<times> attrval) list"

type_synonym key = "string \<times> string"

type_synonym store = "key \<Rightarrow> item option"

text \<open>
  The statements of a transactional write that \<open>join_game_for_user\<close> issues: a \<open>Put\<close> of an
  item and an \<open>Update\<close> with \<open>SET a = a + :p\<close>, each under a condition,
  \<open>attribute_not_exists(a)\<close> or \<open>a <= :limit\<close>.
\<close>

datatype condition = Attribute_not_exists string | Attribute_le string int

datatype transact_item =
    Put item condition
  | Update key string int condition

definition item_key :: "item \<Rightarrow> key option" where
  "item_key it =
     (case (map_of it ''PK'', map_of it ''SK'') of
        (Some (S pk), Some (S sk)) \<Rightarrow> Some (pk, sk)
      | _ \<Rightarrow> None)"

fun statement_key :: "transact_item \<Rightarrow> key option" where
  "statement_key (Put it c) = item_key it"
| "statement_key (Update k a d c) = Some k"

fun statement_condition :: "transact_item \<Rightarrow> condition" where
  "statement_condition (Put it c) = c"
| "statement_condition (Update k a d c) = c"

text \<open>
  Modelled from the spec: the store's multi-statement atomic write with per-statement
  conditions, a service outside the repository. Each condition is evaluated on the item now
  under the statement's key; both must hold for the write to apply, and if either fails the
  whole operation is rejected with nothing written. A stored item always has its key
  attributes, so \<open>attribute_not_exists\<close> of a key attribute holds only when no item is there;
  a comparison with a missing or non-numeric attribute is false.
\<close>

fun condition_holds :: "item option \<Rightarrow> condition \<Rightarrow> bool" where
  "condition_holds None (Attribute_not_exists a) = True"
| "condition_holds (Some it) (Attribute_not_exists a) =
     (a \<noteq> ''PK'' \<and> a \<noteq> ''SK'' \<and> map_of it a = None)"
| "condition_holds None (Attribute_le a limit) = False"
| "condition_holds (Some it) (Attribute_le a limit) =
     (case map_of it a of Some (N n) \<Rightarrow> n \<le> limit | _ \<Rightarrow> False)"

definition statement_passes :: "store \<Rightarrow> transact_item \<Rightarrow> bool" where
  "statement_passes db stmt =
     (case statement_key stmt of
        None \<Rightarrow> False
      | Some k \<Rightarrow> condition_holds (db k) (statement_condition stmt))"

fun apply_statement :: "transact_item \<Rightarrow> store \<Rightarrow> store" where
  "apply_statement (Put it c) db =
     (case item_key it of Some k \<Rightarrow> db(k \<mapsto> it) | None \<Rightarrow> db)"
| "apply_statement (Update k a d c) db =
     (case db k of
        Some it \<Rightarrow>
          (case map_of it a of
             Some (N n) \<Rightarrow> db(k \<mapsto> AList.update a (N (n + d)) it)
           | _ \<Rightarrow> db)
      | None \<Rightarrow> db)"

fun cancellation_reasons :: "store \<Rightarrow> transact_item list \<Rightarrow> string" where
  "cancellation_reasons db [] = []"
| "cancellation_reasons db [stmt] =
     (if statement_passes db stmt then ''None'' else ''ConditionalCheckFailed'')"
| "cancellation_reasons db (stmt # rest) =
     (if statement_passes db stmt then ''None'' else ''ConditionalCheckFailed'')
     @ '', '' @ cancellation_reasons db rest"

definition transaction_cancelled :: "store \<Rightarrow> transact_item list \<Rightarrow> py_error" where
  "transaction_cancelled db stmts =
     ClientError (''An error occurred (TransactionCanceledException) when calling the ''
       @ ''TransactWriteItems operation: Transaction cancelled, please refer cancellation ''
       @ ''reasons for specific reasons ['' @ cancellation_reasons db stmts @ '']'')"

definition validation_error :: py_error where
  "validation_error =
     ClientError (''An error occurred (ValidationException) when calling the ''
       @ ''TransactWriteItems operation: Transaction request cannot include multiple ''
       @ ''operations on one item'')"

definition transact_write_items :: "store \<Rightarrow> transact_item list \<Rightarrow> store res" where
  "transact_write_items db stmts =
     (if \<not> distinct (map statement_key stmts) then Inl validation_error
      else if list_all (statement_passes db) stmts then Inr (fold apply_statement stmts db)
      else Inl (transaction_cancelled db stmts))"

section \<open>join_game_for_user\<close>

definition MAX_PLAYERS :: int where
  "MAX_PLAYERS = 500"

text \<open>
  The game id of a record returned by a query:
  \<^verbatim>\<open>
  game_id = None
  if 'game_id' in game_data and 'S' in game_data['game_id']:
      game_id = game_data['game_id']['S']
  elif 'PK' in game_data and 'S' in game_data['PK']:
      pk = game_data['PK']['S']
      if pk.startswith('GAME#'):
          game_id = pk[5:]
  \<close>
\<close>

definition extract_game_id :: "item \<Rightarrow> string option" where
  "extract_game_id game_data =
     (case map_of game_data ''game_id'' of
        Some (S game_id) \<Rightarrow> Some game_id
      | _ \<Rightarrow>
        (case map_of game_data ''PK'' of
           Some (S pk) \<Rightarrow> if starts_with pk ''GAME#'' then Some (drop 5 pk) else None
         | _ \<Rightarrow> None))"

text \<open>The two statements of the transaction, as the source writes them.\<close>

definition join_transaction :: "string \<Rightarrow> string \<Rightarrow> transact_item list" where
  "join_transaction game_id username =
     [Put [(''PK'', S (''GAME#'' @ game_id)), (''SK'', S (''USER#'' @ username)),
           (''game_id'', S game_id), (''username'', S username)]
          (Attribute_not_exists ''SK''),
      Update (''GAME#'' @ game_id, ''#METADATA#'' @ game_id) ''people'' 1
          (Attribute_le ''people'' (MAX_PLAYERS - 1))]"

text \<open>
  \<open>join_game_for_user\<close>, on the store \<open>db\<close> and the tracker \<open>self\<close>. \<open>consumed\<close> is the
  \<open>ConsumedCapacity\<close> of the store's response, if the response has one. With a record typed as
  an item the extraction cannot raise, so the outer \<open>except\<close> is never entered. It returns the
  flag, the store and the tracker.
\<close>

definition join_game_for_user ::
  "store \<Rightarrow> item \<Rightarrow> string \<Rightarrow> pyval option \<Rightarrow> tracker \<Rightarrow> bool \<times> store \<times> tracker" where
  "join_game_for_user db game_data username consumed self =
     (case extract_game_id game_data of
        None \<Rightarrow> (False, db, set_error ''Could not determine game ID'' self)
      | Some game_id \<Rightarrow>
          if game_id = [] then (False, db, set_error ''Could not determine game ID'' self)
          else
            (case transact_write_items db (join_transaction game_id username) of
               Inl transaction_error \<Rightarrow>
                 (False, db, set_error (''Transaction error: '' @ str_exc transaction_error) self)
             | Inr db' \<Rightarrow>
                 (case consumed of
                    Some consumed_capacity \<Rightarrow>
                      (case add_consumption_join ''join_game_transaction'' consumed_capacity self of
                         (Inl transaction_error, self') \<Rightarrow>
                           (False, db',
                            set_error (''Transaction error: '' @ str_exc transaction_error) self')
                       | (Inr u, self') \<Rightarrow> (True, db', self'))
                  | None \<Rightarrow>
                      (True, db',
                       self\<lparr>operations := operations self @ [''join_game_transaction'']\<rparr>))))"

text \<open>The player count of a game, and whether a user is enrolled in it.\<close>

definition people_of :: "store \<Rightarrow> string \<Rightarrow> int option" where
  "people_of db game_id =
     (case db (''GAME#'' @ game_id, ''#METADATA#'' @ game_id) of
        Some it \<Rightarrow> (case map_of it ''people'' of Some (N n) \<Rightarrow> Some n | _ \<Rightarrow> None)
      | None \<Rightarrow> None)"

definition enrolled :: "store \<Rightarrow> string \<Rightarrow> string \<Rightarrow> bool" where
  "enrolled db game_id username = (db (''GAME#'' @ game_id, ''USER#'' @ username) \<noteq> None)"

text \<open>
  A sequence of join attempts on one store, each by a caller with its own record, user name,
  response and tracker. The store applies each transaction atomically, so the attempts of
  concurrent callers reach it in some order, one after the other.
\<close>

type_synonym attempt = "item \<times> string \<times> pyval option \<times> tracker"

fun join_attempts :: "store \<Rightarrow> attempt list \<Rightarrow> store" where
  "join_attempts db [] = db"
| "join_attempts db ((game_data, username, consumed, self) # rest) =
     join_attempts (fst (snd (join_game_for_user db game_data username consumed self))) rest"

text \<open>The store after both statements of the join transaction have been applied.\<close>

definition joined :: "store \<Rightarrow> string \<Rightarrow> string \<Rightarrow> store" where
  "joined db game_id username = fold apply_statement (join_transaction game_id username) db"

section \<open>The join-game request\<close>

definition TABLE_NAME :: string where
  "TABLE_NAME = ''battle-royale''"

definition MODULE_NAME :: string where
  "MODULE_NAME = ''join-game''"

definition MAPS :: "string list" where
  "MAPS =
     [''Green Grasslands'', ''Dirty Desert'', ''Urban Underground'', ''Juicy Jungle'', ''Open Ocean'',
      ''Mystic Mountains'', ''Frozen Frontier'', ''Volcanic Valley'', ''Haunted Hills'', ''Sunny Shores'',
      ''Cosmic Crater'', ''Ancient Ruins'', ''Neon City'', ''Foggy Forest'', ''Crystal Caves'',
      ''Burning Badlands'', ''Stormy Skies'', ''Toxic Tundra'', ''Peaceful Peaks'', ''Deadly Dunes'',
      ''Lava Lakes'', ''Windy Wasteland'', ''Tropical Treetops'', ''Icy Islands'', ''Murky Marshes'',
      ''Savage Savannah'', ''Radiant Reef'', ''Dusty Docks'', ''Phantom Fortress'', ''Bamboo Basin'',
      ''Crimson Canyon'', ''Emerald Estuary'', ''Golden Gorge'', ''Hidden Harbor'', ''Ivory Isle'',
      ''Jade Jungle'', ''Karst Kingdom'', ''Lunar Landscape'', ''Midnight Meadow'', ''Nebula Nexus'',
      ''Obsidian Outpost'', ''Prismatic Plains'', ''Quantum Quarry'', ''Ruby Ridge'', ''Sapphire Springs'',
      ''Twilight Temple'', ''Umbra Uplands'', ''Verdant Valley'', ''Whispering Woods'', ''Xenon Xanadu'']"

text \<open>
  What the store answers to a read: the \<open>ConsumedCapacity\<close> of the response, the \<open>Items\<close> of
  a query and the \<open>Responses\<close> of a bulk read for the table, each present or not. The
  store's answer to the query for a map is a parameter \<open>dynamodb_query\<close> of what follows:
  the response, or the exception the call raises.
\<close>

record response =
  ConsumedCapacity :: "pyval option"
  Items :: "item list option"
  Responses :: "item list option"

text \<open>
  \<open>get_open_games_by_map\<close>: whatever is raised inside the \<open>try\<close>, by the store or by
  \<open>add_consumption\<close>, is recorded with \<open>set_error\<close> and the result is the empty list.
\<close>

definition get_open_games_by_map ::
  "(string \<Rightarrow> response res) \<Rightarrow> string \<Rightarrow> tracker \<Rightarrow> item list \<times> tracker" where
  "get_open_games_by_map dynamodb_query map_name self =
     (case dynamodb_query map_name of
        Inl e \<Rightarrow> ([], set_error (str_exc e) self)
      | Inr response \<Rightarrow>
          (case (case ConsumedCapacity response of
                   Some consumed_capacity \<Rightarrow>
                     add_consumption_join (''query_open_games_map_'' @ map_name)
                       consumed_capacity self
                 | None \<Rightarrow> append_operation (''query_open_games_map_'' @ map_name) self) of
             (Inl e, self') \<Rightarrow> ([], set_error (str_exc e) self')
           | (Inr u, self') \<Rightarrow>
               (case Items response of None \<Rightarrow> ([], self') | Some games \<Rightarrow> (games, self'))))"

text \<open>
  The loop of \<open>main\<close> over the other maps:
  \<^verbatim>\<open>
  for map_name in MAPS:
      if map_name != selected_map:
          open_games = get_open_games_by_map(map_name)
          if open_games:
              break
  \<close>
\<close>

fun try_other_maps ::
  "(string \<Rightarrow> response res) \<Rightarrow> string \<Rightarrow> string list \<Rightarrow> tracker \<Rightarrow> item list \<times> tracker"
  where
  "try_other_maps dynamodb_query selected_map [] self = ([], self)"
| "try_other_maps dynamodb_query selected_map (map_name # rest) self =
     (if map_name \<noteq> selected_map then
        (case get_open_games_by_map dynamodb_query map_name self of
           (open_games, self') \<Rightarrow>
             if open_games \<noteq> [] then (open_games, self')
             else try_other_maps dynamodb_query selected_map rest self')
      else try_other_maps dynamodb_query selected_map rest self)"

text \<open>The first part of \<open>main\<close>: the query for the selected map, then for the others.\<close>

definition find_open_games ::
  "(string \<Rightarrow> response res) \<Rightarrow> string \<Rightarrow> tracker \<Rightarrow> item list \<times> tracker" where
  "find_open_games dynamodb_query selected_map self =
     (case get_open_games_by_map dynamodb_query selected_map self of
        (open_games, self') \<Rightarrow>
          if open_games = [] then try_other_maps dynamodb_query selected_map MAPS self'
          else (open_games, self'))"

text \<open>
  The usage record that \<open>log_resource_usage\<close> writes, one field per JSON key but
  \<open>timestamp\<close>, \<open>latency_ms\<close>, \<open>region\<close> and \<open>request_id\<close>, which come from the clock, the
  session and a random generator. \<open>gsi_usage\<close> is there when \<open>gsi_consumption\<close> is not empty,
  and \<open>error\<close> when the tracker's error is a non-empty string.
\<close>

record log_entry =
  log_module :: string
  log_operations :: "string list"
  log_user_id :: string
  log_rcu :: int
  log_wcu :: int
  log_table :: string
  log_status :: string
  log_table_usage :: usage
  log_gsi_usage :: "(string \<times> usage) list option"
  log_error :: "string option"

definition log_resource_usage :: "string \<Rightarrow> tracker \<Rightarrow> log_entry" where
  "log_resource_usage user_id self =
     \<lparr>log_module = MODULE_NAME,
      log_operations = operations self,
      log_user_id = user_id,
      log_rcu = total_rcu self,
      log_wcu = total_wcu self,
      log_table = TABLE_NAME,
      log_status = status self,
      log_table_usage = table_consumption self,
      log_gsi_usage = (if gsi_consumption self \<noteq> [] then Some (gsi_consumption self) else None),
      log_error = (case error self of
                     None \<Rightarrow> None
                   | Some msg \<Rightarrow> if msg \<noteq> [] then Some msg else None)\<rparr>"

text \<open>
  \<open>main\<close> of \<open>join_game_with_opengamesindex.py\<close>. Its random choices are parameters:
  \<open>selected_map\<close> is \<open>random.choice(MAPS)\<close>, \<open>pick\<close> gives the game that
  \<open>random.choice(open_games)\<close> selects, \<open>user_id\<close> is what \<open>get_random_user_from_table\<close>
  returns (it does not touch the tracker). Nothing in the body raises here, so the handler of
  the outer \<open>try\<close> is not entered. It returns the usage record it logs, the store and the
  tracker.
\<close>

definition main ::
  "(string \<Rightarrow> response res) \<Rightarrow> string \<Rightarrow> nat \<Rightarrow> string \<Rightarrow> pyval option \<Rightarrow> store
     \<Rightarrow> log_entry \<times> store \<times> tracker" where
  "main dynamodb_query selected_map pick user_id consumed db =
     (case find_open_games dynamodb_query selected_map reset of
        (open_games, self) \<Rightarrow>
          if open_games = [] then
            (log_resource_usage ''N/A'' (set_error ''No open games available'' self), db,
             set_error ''No open games available'' self)
          else
            (case join_game_for_user db (open_games ! (pick mod length open_games)) user_id
                    consumed self of
               (success, db', self') \<Rightarrow>
                 if success then
                   (log_resource_usage user_id (self'\<lparr>status := ''success'', error := None\<rparr>), db',
                    self'\<lparr>status := ''success'', error := None\<rparr>)
                 else (log_resource_usage user_id self', db', self')))"

section \<open>get_game_details\<close>

text \<open>\<open>str(n)\<close> of a non-negative integer: its decimal digits.\<close>

definition digit_char :: "nat \<Rightarrow> char" where
  "digit_char d = char_of (48 + d)"

function str_nat :: "nat \<Rightarrow> string" where
  "str_nat n = (if n < 10 then [digit_char n] else str_nat (n div 10) @ [digit_char (n mod 10)])"
  by pat_completeness auto
termination
  by (relation "measure id") auto

declare str_nat.simps [simp del]

text \<open>The details that \<open>get_game_details\<close> extracts from one item of a response.\<close>

record game_detail =
  detail_game_id :: "string option"
  detail_map :: "string option"
  detail_people :: "int option"
  detail_max_people :: "int option"
  detail_open_timestamp :: "int option"

definition attr_S :: "item \<Rightarrow> string \<Rightarrow> string option" where
  "attr_S it a = (case map_of it a of Some (S s) \<Rightarrow> Some s | _ \<Rightarrow> None)"

definition attr_N :: "item \<Rightarrow> string \<Rightarrow> int option" where
  "attr_N it a = (case map_of it a of Some (N n) \<Rightarrow> Some n | _ \<Rightarrow> None)"

definition game_detail_of :: "item \<Rightarrow> game_detail" where
  "game_detail_of it =
     \<lparr>detail_game_id = extract_game_id it,
      detail_map = attr_S it ''map'',
      detail_people = attr_N it ''people'',
      detail_max_people = attr_N it ''max_people'',
      detail_open_timestamp = attr_N it ''open_timestamp''\<rparr>"

text \<open>The key of a game's metadata item, and the operation name of a batch.\<close>

definition game_key :: "string \<Rightarrow> key" where
  "game_key game_id = (''GAME#'' @ game_id, ''#METADATA#'' @ game_id)"

definition batch_operation :: "nat \<Rightarrow> string" where
  "batch_operation k = ''get_game_details_batch_'' @ str_nat k"

text \<open>
  The loop \<open>for i in range(0, len(keys), 100)\<close>. The store's answer to the bulk read is a
  parameter \<open>batch_get_item\<close>, given the number of the call and its keys: the response, or the
  exception the call raises. The loop carries the list of details gathered so far and the
  list of the calls issued so far, each call being its list of keys. An exception, of the
  store or of \<open>add_consumption\<close>, ends the loop.
\<close>

function batch_loop ::
  "(nat \<Rightarrow> key list \<Rightarrow> response res) \<Rightarrow> key list \<Rightarrow> nat \<Rightarrow> game_detail list \<Rightarrow> key list list
     \<Rightarrow> tracker \<Rightarrow> game_detail list res \<times> key list list \<times> tracker" where
  "batch_loop batch_get_item keys i all_game_details calls self =
     (if i < length keys then
        (case batch_get_item (i div 100) (take 100 (drop i keys)) of
           Inl e \<Rightarrow> (Inl e, calls @ [take 100 (drop i keys)], self)
         | Inr response \<Rightarrow>
             (case (case ConsumedCapacity response of
                      Some consumed_capacity \<Rightarrow>
                        add_consumption_query (batch_operation (i div 100)) consumed_capacity self
                    | None \<Rightarrow> append_operation (batch_operation (i div 100)) self) of
                (Inl e, self') \<Rightarrow> (Inl e, calls @ [take 100 (drop i keys)], self')
              | (Inr u, self') \<Rightarrow>
                  batch_loop batch_get_item keys (i + 100)
                    (all_game_details
                     @ (case Responses response of
                          Some items \<Rightarrow> map game_detail_of items
                        | None \<Rightarrow> []))
                    (calls @ [take 100 (drop i keys)]) self'))
      else (Inr all_game_details, calls, self))"
  by pat_completeness auto
termination
  by (relation "measure (\<lambda>(batch_get_item, keys, i, all_game_details, calls, self). length keys - i)")
     auto

declare batch_loop.simps [simp del]

text \<open>
  \<open>get_game_details\<close>: the details, the calls issued to the store, and the tracker. On an
  exception the error is recorded and the result is the empty list.
\<close>

definition get_game_details ::
  "(nat \<Rightarrow> key list \<Rightarrow> response res) \<Rightarrow> string list \<Rightarrow> tracker
     \<Rightarrow> game_detail list \<times> key list list \<times> tracker" where
  "get_game_details batch_get_item game_ids self =
     (if game_ids = [] then ([], [], self)
      else
        (case batch_loop batch_get_item (map game_key game_ids) 0 [] [] self of
           (Inr all_game_details, calls, self') \<Rightarrow> (all_game_details, calls, self')
         | (Inl e, calls, self') \<Rightarrow> ([], calls, set_error (str_exc e) self')))"

text \<open>The \<open>k\<close>-th batch of a list of keys, and the number of batches of \<open>n\<close> keys.\<close>

definition batch_of :: "key list \<Rightarrow> nat \<Rightarrow> key list" where
  "batch_of keys k = take 100 (drop (100 * k) keys)"

definition batch_count :: "nat \<Rightarrow> nat" where
  "batch_count n = (n + 99) div 100"

definition details_of :: "response \<Rightarrow> game_detail list" where
  "details_of response =
     (case Responses response of Some items \<Rightarrow> map game_detail_of items | None \<Rightarrow> [])"

definition report_well_typed :: "response \<Rightarrow> bool" where
  "report_well_typed response =
     (case ConsumedCapacity response of Some consumed_capacity \<Rightarrow> well_typed consumed_capacity
      | None \<Rightarrow> True)"

section \<open>Properties of add_consumption\<close>

subsection \<open>Well-typed reports never raise\<close>

lemma is_numE: "is_num v \<Longrightarrow> (\<And>n. v = PNum n \<Longrightarrow> P) \<Longrightarrow> P"
  by (cases v) auto

lemma gsi_units_wt:
  assumes "well_typed_entry v"
  shows "gsi_units rd v = Inr (PNum (fst (entry_pair rd v)), PNum (snd (entry_pair rd v)))"
proof -
  from assms obtain e where v: "v = PDict e"
    by (cases v) (auto simp: well_typed_entry_def)
  from assms v obtain r w c where
    "dict_get e ''ReadCapacityUnits'' (PNum 0) = PNum r"
    "dict_get e ''WriteCapacityUnits'' (PNum 0) = PNum w"
    "dict_get e ''CapacityUnits'' (PNum 0) = PNum c"
    by (auto simp: well_typed_entry_def elim!: is_numE)
  then show ?thesis
    by (simp add: v gsi_units_def entry_pair_def fld_def)
qed

lemma table_units_wt:
  assumes "well_typed_entry (dict_get d ''Table'' (PDict []))"
  shows "table_units rd d =
           Inr (PNum (fst (entry_pair rd (dict_get d ''Table'' (PDict [])))),
                PNum (snd (entry_pair rd (dict_get d ''Table'' (PDict [])))))"
proof -
  from assms obtain e where v: "dict_get d ''Table'' (PDict []) = PDict e"
    by (cases "dict_get d ''Table'' (PDict [])") (auto simp: well_typed_entry_def)
  from assms v obtain r w c where f:
    "dict_get e ''ReadCapacityUnits'' (PNum 0) = PNum r"
    "dict_get e ''WriteCapacityUnits'' (PNum 0) = PNum w"
    "dict_get e ''CapacityUnits'' (PNum 0) = PNum c"
    by (auto simp: well_typed_entry_def elim!: is_numE)
  show ?thesis
  proof (cases "has_key d ''Table''")
    case True
    with f show ?thesis
      by (simp add: v table_units_def entry_pair_def fld_def)
  next
    case False
    then have "map_of d ''Table'' = None"
      by (simp add: has_key_def)
    then show ?thesis
      by (simp add: table_units_def has_key_def dict_get_def entry_pair_def fld_def)
  qed
qed

lemma update_append_absent:
  "map_of g k = None \<Longrightarrow> AList.update k v (g @ [(k, z)]) = AList.update k v g"
  by (induction g) (auto split: if_splits)

lemma gsi_step:
  "bnd (gsi_ensure n) (\<lambda>_. bnd (add_gsi_rcu n (PNum r)) (\<lambda>r'. bnd (add_gsi_wcu n (PNum w)) (\<lambda>w'. k r' w'))) self
   = k r w (self\<lparr>gsi_consumption := gsi_bump n (r, w) (gsi_consumption self)\<rparr>)"
proof (cases "map_of (gsi_consumption self) n")
  case None
  then show ?thesis
    by (simp add: bnd_def gsi_ensure_def add_gsi_rcu_def add_gsi_wcu_def gsi_bump_def Let_def
     gsi_usage_of_def update_conv' update_append_absent zero_usage_def map_add_def)
next
  case (Some u)
  then show ?thesis
    by (cases u) (simp add: bnd_def gsi_ensure_def add_gsi_rcu_def add_gsi_wcu_def gsi_bump_def
     Let_def gsi_usage_of_def update_conv')
qed

lemma gsi_loop_wt:
  "list_all (\<lambda>g. well_typed_entry (snd g)) gs \<Longrightarrow>
   gsi_loop rd gs sums self =
     (Inr (fst sums + fst (gsi_sum rd gs), snd sums + snd (gsi_sum rd gs)),
      self\<lparr>gsi_consumption := gsi_fold rd gs (gsi_consumption self)\<rparr>)"
proof (induction gs arbitrary: sums self)
  case Nil
  then show ?case by (simp add: ret_def gsi_sum_def gsi_fold_def)
next
  case (Cons a gs)
  obtain n v where a: "a = (n, v)" by (cases a)
  from Cons.prems a have wt: "well_typed_entry v" and rest: "list_all (\<lambda>g. well_typed_entry (snd g)) gs"
    by simp_all
  show ?case
    unfolding a gsi_loop.simps
    apply (subst bnd_def)
    apply (simp add: lift_def gsi_units_wt [OF wt] gsi_step Cons.IH [OF rest])
    apply (simp add: gsi_sum_def gsi_fold_def)
    done
qed

lemma gsi_section_wt:
  assumes "well_typed_report d"
  shows "gsi_section rd d self =
           (Inr (gsi_sum rd (gsi_entries d)),
            self\<lparr>gsi_consumption := gsi_fold rd (gsi_entries d) (gsi_consumption self)\<rparr>)"
proof (cases "map_of d ''GlobalSecondaryIndexes''")
  case None
  then show ?thesis
    by (simp add: gsi_section_def gsi_entries_def ret_def gsi_sum_def gsi_fold_def)
next
  case (Some v)
  with assms obtain gs where v: "v = PDict gs" and wt: "list_all (\<lambda>g. well_typed_entry (snd g)) gs"
    by (cases v) (auto simp: well_typed_report_def)
  show ?thesis
    by (simp add: gsi_section_def gsi_entries_def Some v bnd_def lift_def gsi_loop_wt [OF wt])
qed

lemma fold_report_wt:
  assumes "well_typed_report d"
  shows "fold_report rd d self = (Inr (), apply_report rd d self)"
proof -
  from assms have t: "well_typed_entry (dict_get d ''Table'' (PDict []))"
    and c: "is_num (dict_get d ''CapacityUnits'' (PNum 0))"
    by (simp_all add: well_typed_report_def)
  from c obtain n where n: "dict_get d ''CapacityUnits'' (PNum 0) = PNum n"
    by (auto elim: is_numE)
  show ?thesis
    unfolding fold_report_def
    apply (simp add: bnd_def lift_def table_units_wt [OF t] add_table_rcu_def add_table_wcu_def
        gsi_section_wt [OF assms] add_totals_def add_total_rcu_def add_total_wcu_def n
        apply_report_def apply_units_def total_pair_def components_def table_pair_def fld_def)
    done
qed

lemma item_gsi_term_wt:
  assumes "well_typed_entry v" and "field = ''ReadCapacityUnits'' \<or> field = ''WriteCapacityUnits''"
  shows "item_gsi_term c field v = Inr (item_term c field v)"
proof -
  from assms(1) obtain e where v: "v = PDict e"
    by (cases v) (auto simp: well_typed_entry_def)
  from assms(1) v obtain r w n where
    "dict_get e ''ReadCapacityUnits'' (PNum 0) = PNum r"
    "dict_get e ''WriteCapacityUnits'' (PNum 0) = PNum w"
    "dict_get e ''CapacityUnits'' (PNum 0) = PNum n"
    by (auto simp: well_typed_entry_def elim!: is_numE)
  with assms(2) show ?thesis
    by (auto simp: v item_gsi_term_def item_term_def fld_def)
qed

lemma item_gsi_loop_wt:
  "list_all (\<lambda>g. well_typed_entry (snd g)) gs \<Longrightarrow>
   item_gsi_loop rd gs item =
     Inr (fst item + sum_list (map (\<lambda>g. item_term rd ''ReadCapacityUnits'' (snd g)) gs),
          snd item + sum_list (map (\<lambda>g. item_term (\<not> rd) ''WriteCapacityUnits'' (snd g)) gs))"
proof (induction gs arbitrary: item)
  case Nil
  then show ?case by simp
next
  case (Cons a gs)
  obtain n v where a: "a = (n, v)" by (cases a)
  from Cons.prems a have wt: "well_typed_entry v" and rest: "list_all (\<lambda>g. well_typed_entry (snd g)) gs"
    by simp_all
  show ?case
    by (simp add: a item_gsi_term_wt [OF wt] Cons.IH [OF rest])
qed

lemma item_sums_wt:
  assumes "well_typed_report d"
  shows "item_sums rd d tbl =
     Inr (fst tbl + sum_list (map (\<lambda>g. item_term rd ''ReadCapacityUnits'' (snd g)) (gsi_entries d)),
          snd tbl + sum_list (map (\<lambda>g. item_term (\<not> rd) ''WriteCapacityUnits'' (snd g)) (gsi_entries d)))"
proof (cases "map_of d ''GlobalSecondaryIndexes''")
  case None
  then show ?thesis
    by (simp add: item_sums_def gsi_entries_def)
next
  case (Some v)
  with assms obtain gs where v: "v = PDict gs" and wt: "list_all (\<lambda>g. well_typed_entry (snd g)) gs"
    by (cases v) (auto simp: well_typed_report_def)
  show ?thesis
    by (simp add: item_sums_def gsi_entries_def Some v item_gsi_loop_wt [OF wt])
qed

lemma item_report_join_wt:
  assumes "well_typed_report d"
  shows "item_report_join rd d self = (Inr (), apply_item_join rd d self)"
proof -
  from assms have t: "well_typed_entry (dict_get d ''Table'' (PDict []))"
    and c: "is_num (dict_get d ''CapacityUnits'' (PNum 0))"
    by (simp_all add: well_typed_report_def)
  from c obtain n where n: "dict_get d ''CapacityUnits'' (PNum 0) = PNum n"
    by (auto elim: is_numE)
  show ?thesis
    unfolding item_report_join_def
    by (simp add: bnd_def lift_def table_units_wt [OF t] add_table_rcu_def add_table_wcu_def
        gsi_section_wt [OF assms] item_sums_wt [OF assms] add_total_rcu_def add_total_wcu_def n
        apply_item_join_def apply_units_def item_total_join_def table_pair_def fld_def)
qed

lemma list_loop_wt:
  "list_all (\<lambda>item. case item of PDict d \<Rightarrow> well_typed_report d | _ \<Rightarrow> True) items \<Longrightarrow>
   (\<And>d s. well_typed_report d \<Longrightarrow> body d s = (Inr (), f d s)) \<Longrightarrow>
   list_loop body items self = (Inr (), list_apply f items self)"
proof (induction items arbitrary: self)
  case Nil
  then show ?case by (simp add: ret_def list_apply_def)
next
  case (Cons item items)
  then show ?case
    by (cases item) (simp_all add: bnd_def ret_def list_apply_def)
qed

lemma add_consumption_join_wt:
  assumes "well_typed cc"
  shows "add_consumption_join operation cc self =
           (Inr (), (units_join operation cc self)
                      \<lparr>operations := operations (units_join operation cc self) @ [operation]\<rparr>)"
proof (cases cc)
  case (PDict d)
  with assms show ?thesis
    by (simp add: add_consumption_join_def units_join_def bnd_def fold_report_wt append_operation_def)
next
  case (PList items)
  with assms have "list_loop (item_report_join (is_read_join operation)) items self
      = (Inr (), list_apply (apply_item_join (is_read_join operation)) items self)"
    by (intro list_loop_wt) (simp_all add: item_report_join_wt)
  with PList show ?thesis
    by (simp add: add_consumption_join_def units_join_def bnd_def append_operation_def)
qed (simp_all add: add_consumption_join_def units_join_def append_operation_def)

lemma add_consumption_query_wt:
  assumes "well_typed cc"
  shows "add_consumption_query operation cc self =
           (Inr (), (units_query operation cc self)
                      \<lparr>operations := operations (units_query operation cc self) @ [operation]\<rparr>)"
proof (cases cc)
  case (PDict d)
  with assms show ?thesis
    by (simp add: add_consumption_query_def units_query_def bnd_def fold_report_wt append_operation_def)
next
  case (PList items)
  with assms have "list_loop (fold_report (is_read_query operation)) items self
      = (Inr (), list_apply (apply_report (is_read_query operation)) items self)"
    by (intro list_loop_wt) (simp_all add: fold_report_wt)
  with PList show ?thesis
    by (simp add: add_consumption_query_def units_query_def bnd_def append_operation_def)
qed (simp_all add: add_consumption_query_def units_query_def append_operation_def)

subsection \<open>The operation history\<close>

lemma keeps_historyD:
  assumes "keeps_history m"
  shows "operations (snd (m self)) = operations self"
proof -
  obtain r s where ms: "m self = (r, s)" by (cases "m self")
  from assms have "m (self\<lparr>operations := operations self\<rparr>)
               = (fst (m self), (snd (m self))\<lparr>operations := operations self\<rparr>)"
    unfolding keeps_history_def by blast
  with ms have "s = s\<lparr>operations := operations self\<rparr>"
    by simp
  then have "operations s = operations (s\<lparr>operations := operations self\<rparr>)"
    by simp
  with ms show ?thesis by simp
qed

lemma keeps_history_ret: "keeps_history (ret x)"
  by (simp add: keeps_history_def ret_def)

lemma keeps_history_lift: "keeps_history (lift r)"
  by (simp add: keeps_history_def lift_def)

lemma keeps_history_bnd:
  assumes "keeps_history m" and "\<And>x. keeps_history (f x)"
  shows "keeps_history (bnd m f)"
  unfolding keeps_history_def
proof (intro allI)
  fix self ops
  obtain r s where ms: "m self = (r, s)" by (cases "m self")
  with assms(1) have ms': "m (self\<lparr>operations := ops\<rparr>) = (r, s\<lparr>operations := ops\<rparr>)"
    by (simp add: keeps_history_def)
  show "bnd m f (self\<lparr>operations := ops\<rparr>)
          = (fst (bnd m f self), (snd (bnd m f self))\<lparr>operations := ops\<rparr>)"
  proof (cases r)
    case (Inl e)
    with ms ms' show ?thesis by (simp add: bnd_def)
  next
    case (Inr x)
    from assms(2) [of x] have "f x (s\<lparr>operations := ops\<rparr>)
        = (fst (f x s), (snd (f x s))\<lparr>operations := ops\<rparr>)"
      by (simp add: keeps_history_def)
    with Inr ms ms' show ?thesis by (simp add: bnd_def)
  qed
qed

lemma keeps_history_prims:
  "keeps_history (add_table_rcu v)" "keeps_history (add_table_wcu v)"
  "keeps_history (add_total_rcu v)" "keeps_history (add_total_wcu v)"
  "keeps_history (gsi_ensure n)" "keeps_history (add_gsi_rcu n v)" "keeps_history (add_gsi_wcu n v)"
  by (simp_all add: keeps_history_def add_table_rcu_def add_table_wcu_def add_total_rcu_def
      add_total_wcu_def gsi_ensure_def add_gsi_rcu_def add_gsi_wcu_def Let_def split: sum.splits)

lemma keeps_history_gsi_loop: "keeps_history (gsi_loop rd gs sums)"
proof (induction gs arbitrary: sums)
  case Nil
  then show ?case by (simp add: keeps_history_ret)
next
  case (Cons a gs)
  obtain n v where a: "a = (n, v)" by (cases a)
  show ?case
    unfolding a gsi_loop.simps
    by (intro keeps_history_bnd keeps_history_lift keeps_history_prims Cons.IH)
       (simp add: split_def, intro keeps_history_bnd keeps_history_lift keeps_history_prims Cons.IH)
qed

lemma keeps_history_gsi_section: "keeps_history (gsi_section rd d)"
  unfolding gsi_section_def
  by (auto split: option.splits
      intro!: keeps_history_ret keeps_history_bnd keeps_history_lift keeps_history_gsi_loop)

lemma keeps_history_add_totals: "keeps_history (add_totals rd d tbl gsi)"
  unfolding add_totals_def
  by (auto intro!: keeps_history_bnd keeps_history_prims)

lemma keeps_history_fold_report: "keeps_history (fold_report rd d)"
  unfolding fold_report_def
  by (intro keeps_history_bnd keeps_history_lift)
     (auto simp: split_def
           intro!: keeps_history_bnd keeps_history_prims keeps_history_gsi_section
                   keeps_history_add_totals)

lemma keeps_history_item_report_join: "keeps_history (item_report_join rd d)"
  unfolding item_report_join_def
  by (intro keeps_history_bnd keeps_history_lift)
     (auto simp: split_def
           intro!: keeps_history_bnd keeps_history_prims keeps_history_gsi_section
                   keeps_history_lift)

lemma keeps_history_list_loop:
  assumes "\<And>d. keeps_history (body d)"
  shows "keeps_history (list_loop body items)"
proof (induction items)
  case Nil
  then show ?case by (simp add: keeps_history_ret)
next
  case (Cons item items)
  show ?case
    unfolding list_loop.simps
    by (intro keeps_history_bnd Cons.IH) (cases item; simp add: keeps_history_ret assms)
qed

lemma history_after:
  assumes "keeps_history m"
  shows "case bnd m (\<lambda>_. append_operation operation) self of
           (Inr u, self') \<Rightarrow> operations self' = operations self @ [operation]
         | (Inl e, self') \<Rightarrow> operations self' = operations self"
proof -
  obtain r s where ms: "m self = (r, s)" by (cases "m self")
  with keeps_historyD [OF assms, of self] have "operations s = operations self"
    by simp
  with ms show ?thesis
    by (cases r) (simp_all add: bnd_def append_operation_def)
qed

lemma add_consumption_join_history:
  "case add_consumption_join operation cc self of
     (Inr u, self') \<Rightarrow> operations self' = operations self @ [operation]
   | (Inl e, self') \<Rightarrow> operations self' = operations self"
proof (cases cc)
  case (PDict d)
  then show ?thesis
    using history_after [OF keeps_history_fold_report]
    by (simp add: add_consumption_join_def)
next
  case (PList items)
  then show ?thesis
    using history_after [OF keeps_history_list_loop [OF keeps_history_item_report_join]]
    by (simp add: add_consumption_join_def)
qed (simp_all add: add_consumption_join_def append_operation_def)

lemma add_consumption_query_history:
  "case add_consumption_query operation cc self of
     (Inr u, self') \<Rightarrow> operations self' = operations self @ [operation]
   | (Inl e, self') \<Rightarrow> operations self' = operations self"
proof (cases cc)
  case (PDict d)
  then show ?thesis
    using history_after [OF keeps_history_fold_report]
    by (simp add: add_consumption_query_def)
next
  case (PList items)
  then show ?thesis
    using history_after [OF keeps_history_list_loop [OF keeps_history_fold_report]]
    by (simp add: add_consumption_query_def)
qed (simp_all add: add_consumption_query_def append_operation_def)

lemma operations_apply_units [simp]: "operations (apply_units tbl g tot self) = operations self"
  by (simp add: apply_units_def)

lemma operations_list_apply:
  "(\<And>d s. operations (f d s) = operations s) \<Longrightarrow>
   operations (list_apply f items self) = operations self"
  unfolding list_apply_def
  by (induction items arbitrary: self) (auto split: pyval.splits)

lemma operations_units_join [simp]: "operations (units_join operation cc self) = operations self"
  by (cases cc) (simp_all add: units_join_def apply_report_def apply_item_join_def
      operations_list_apply)

lemma operations_units_query [simp]: "operations (units_query operation cc self) = operations self"
  by (cases cc) (simp_all add: units_query_def apply_report_def operations_list_apply)

text \<open>
  C8, as amended. Every call of \<open>add_consumption\<close> on a well-typed report (absent, a
  single mapping, a list of any length, or any other value) returns and leaves the history
  extended by the operation name, once, in both scripts. Whatever the report, a call that
  returns has appended the name exactly once, and a call that raises has appended nothing.
\<close>

theorem add_consumption_appends_operation_once:
  "(well_typed cc \<longrightarrow>
      (\<exists>self'. add_consumption_join operation cc self = (Inr (), self')
               \<and> operations self' = operations self @ [operation]) \<and>
      (\<exists>self'. add_consumption_query operation cc self = (Inr (), self')
               \<and> operations self' = operations self @ [operation])) \<and>
   (case add_consumption_join operation cc self of
      (Inr u, self') \<Rightarrow> operations self' = operations self @ [operation]
    | (Inl e, self') \<Rightarrow> operations self' = operations self) \<and>
   (case add_consumption_query operation cc self of
      (Inr u, self') \<Rightarrow> operations self' = operations self @ [operation]
    | (Inl e, self') \<Rightarrow> operations self' = operations self)"
  using add_consumption_join_history [where operation = operation and cc = cc and self = self]
        add_consumption_query_history [where operation = operation and cc = cc and self = self]
  by (simp add: add_consumption_join_wt add_consumption_query_wt)

theorem add_consumption_appends_operation_once_witness:
  "well_typed (PList [PDict [(''CapacityUnits'', PNum 2)], PNone,
                      PDict [(''Table'', PDict [(''WriteCapacityUnits'', PNum 1)])]])
   \<and> fst (add_consumption_join ''join_game_transaction''
            (PList [PDict [(''CapacityUnits'', PNum 2)], PNone,
                    PDict [(''Table'', PDict [(''WriteCapacityUnits'', PNum 1)])]])
            (reset\<lparr>operations := [''query_open_games_map_Neon City'']\<rparr>)) = Inr ()
   \<and> operations (snd (add_consumption_join ''join_game_transaction''
            (PList [PDict [(''CapacityUnits'', PNum 2)], PNone,
                    PDict [(''Table'', PDict [(''WriteCapacityUnits'', PNum 1)])]])
            (reset\<lparr>operations := [''query_open_games_map_Neon City'']\<rparr>)))
       = [''query_open_games_map_Neon City'', ''join_game_transaction'']"
proof -
  let ?cc = "PList [PDict [(''CapacityUnits'', PNum 2)], PNone,
                    PDict [(''Table'', PDict [(''WriteCapacityUnits'', PNum 1)])]]"
  have wt: "well_typed ?cc"
    by (simp add: well_typed_report_def well_typed_entry_def dict_get_def)
  from add_consumption_appends_operation_once
         [where cc = ?cc and operation = "''join_game_transaction''"
            and self = "reset\<lparr>operations := [''query_open_games_map_Neon City'']\<rparr>"]
       wt
  show ?thesis by auto
qed

text \<open>
  C8 as stated fails: on a report whose \<open>Table\<close> entry is \<open>None\<close> the call raises at
  the first read of the entry, before the line that appends, and the history is left as it
  was.
\<close>

theorem add_consumption_raise_appends_nothing_counterexample:
  "fst (add_consumption_join ''join_game_transaction'' (PDict [(''Table'', PNone)])
          (reset\<lparr>operations := [''query_open_games_map_Neon City'']\<rparr>))
     = Inl (AttributeError (CHR 0x27 # ''NoneType'' @ CHR 0x27 # '' object has no attribute ''
                              @ CHR 0x27 # ''get'' @ [CHR 0x27]))
   \<and> operations (snd (add_consumption_join ''join_game_transaction'' (PDict [(''Table'', PNone)])
          (reset\<lparr>operations := [''query_open_games_map_Neon City'']\<rparr>)))
     = [''query_open_games_map_Neon City'']"
  by (simp add: add_consumption_join_def fold_report_def bnd_def lift_def table_units_def
      dict_get_def no_attribute_def)

subsection \<open>Missing fields count as zero\<close>

lemma py_get_zero_filled_entry:
  "py_get (zero_filled_entry v) k (PNum 0) = py_get v k (PNum 0)"
proof (cases v)
  case (PDict e)
  show ?thesis
    by (cases "map_of e k")
       (auto simp: PDict dict_get_def zero_fields_def map_add_def split: option.splits)
qed simp_all

lemma gsi_units_zero_filled: "gsi_units rd (zero_filled_entry v) = gsi_units rd v"
  by (simp add: gsi_units_def py_get_zero_filled_entry cong: sum.case_cong if_cong)

lemma item_gsi_term_zero_filled:
  "item_gsi_term c field (zero_filled_entry v) = item_gsi_term c field v"
  by (simp add: item_gsi_term_def py_get_zero_filled_entry cong: sum.case_cong if_cong)

lemma map_of_zero_filled_report:
  "map_of (zero_filled_report d) k =
     (if k = ''Table'' then Some (zero_filled_entry (dict_get d ''Table'' (PDict [])))
      else if k = ''GlobalSecondaryIndexes'' then map_option zero_filled_indexes (map_of d k)
      else map_of d k)"
proof -
  let ?f = "\<lambda>kv. if fst kv = ''Table'' then (fst kv, zero_filled_entry (snd kv))
                else if fst kv = ''GlobalSecondaryIndexes'' then (fst kv, zero_filled_indexes (snd kv))
                else kv"
  have "map_of (map ?f d) k =
          (if k = ''Table'' then map_option zero_filled_entry (map_of d k)
           else if k = ''GlobalSecondaryIndexes'' then map_option zero_filled_indexes (map_of d k)
           else map_of d k)"
    by (induction d) auto
  then show ?thesis
    by (auto simp: zero_filled_report_def map_add_def dict_get_def split: option.splits)
qed

lemma table_units_zero_filled: "table_units rd (zero_filled_report d) = table_units rd d"
proof -
  have t: "dict_get (zero_filled_report d) ''Table'' (PDict [])
             = zero_filled_entry (dict_get d ''Table'' (PDict []))"
    and h: "has_key (zero_filled_report d) ''Table''"
    by (simp_all add: dict_get_def has_key_def map_of_zero_filled_report)
  show ?thesis
  proof (cases "map_of d ''Table''")
    case None
    then show ?thesis
      by (simp add: table_units_def t h py_get_zero_filled_entry cong: sum.case_cong if_cong)
         (simp add: dict_get_def has_key_def)
  next
    case (Some v)
    then have "has_key d ''Table''" by (simp add: has_key_def)
    then show ?thesis
      by (simp add: table_units_def t h py_get_zero_filled_entry cong: sum.case_cong if_cong)
  qed
qed

lemma gsi_loop_zero_filled:
  "gsi_loop rd (map (\<lambda>g. (fst g, zero_filled_entry (snd g))) gs) sums = gsi_loop rd gs sums"
  by (induction gs arbitrary: sums) (auto simp: gsi_units_zero_filled)

lemma item_gsi_loop_zero_filled:
  "item_gsi_loop rd (map (\<lambda>g. (fst g, zero_filled_entry (snd g))) gs) item
     = item_gsi_loop rd gs item"
  by (induction gs arbitrary: item) (auto simp: item_gsi_term_zero_filled split: sum.splits)

lemma gsi_section_zero_filled: "gsi_section rd (zero_filled_report d) = gsi_section rd d"
proof (cases "map_of d ''GlobalSecondaryIndexes''")
  case None
  then show ?thesis by (simp add: gsi_section_def map_of_zero_filled_report)
next
  case (Some v)
  then show ?thesis
    by (cases v) (simp_all add: gsi_section_def map_of_zero_filled_report bnd_def lift_def
        gsi_loop_zero_filled)
qed

lemma item_sums_zero_filled: "item_sums rd (zero_filled_report d) tbl = item_sums rd d tbl"
proof (cases "map_of d ''GlobalSecondaryIndexes''")
  case None
  then show ?thesis by (simp add: item_sums_def map_of_zero_filled_report)
next
  case (Some v)
  then show ?thesis
    by (cases v) (simp_all add: item_sums_def map_of_zero_filled_report item_gsi_loop_zero_filled)
qed

lemma total_zero_filled:
  "has_key (zero_filled_report d) ''CapacityUnits'' = has_key d ''CapacityUnits''"
  "dict_get (zero_filled_report d) ''CapacityUnits'' dflt = dict_get d ''CapacityUnits'' dflt"
  by (simp_all add: has_key_def dict_get_def map_of_zero_filled_report)

lemma fold_report_zero_filled: "fold_report rd (zero_filled_report d) = fold_report rd d"
  by (simp add: fold_report_def add_totals_def table_units_zero_filled gsi_section_zero_filled
      total_zero_filled cong: if_cong)

lemma item_report_join_zero_filled:
  "item_report_join rd (zero_filled_report d) = item_report_join rd d"
  by (simp add: item_report_join_def table_units_zero_filled gsi_section_zero_filled
      item_sums_zero_filled total_zero_filled cong: if_cong)

lemma list_loop_zero_filled:
  "(\<And>d. body (zero_filled_report d) = body d) \<Longrightarrow>
   list_loop body (map (\<lambda>item. case item of PDict d \<Rightarrow> PDict (zero_filled_report d) | _ \<Rightarrow> item) items)
     = list_loop body items"
  by (induction items) (auto split: pyval.splits)

lemma add_consumption_join_zero_filled:
  "add_consumption_join operation (zero_filled cc) = add_consumption_join operation cc"
  by (cases cc) (simp_all add: add_consumption_join_def fold_report_zero_filled
      list_loop_zero_filled item_report_join_zero_filled)

lemma add_consumption_query_zero_filled:
  "add_consumption_query operation (zero_filled cc) = add_consumption_query operation cc"
  by (cases cc) (simp_all add: add_consumption_query_def fold_report_zero_filled
      list_loop_zero_filled)

text \<open>
  C3, as amended. On every well-typed report (absent, a mapping, a list, or any other value)
  \<open>add_consumption\<close> returns without raising in both scripts and records the operation name.
  A missing unit field of the base-table entry or of an index entry, and a missing base-table
  entry, count as zero: writing the zeros out changes nothing, whatever the report. Whatever
  the report, a call that raises has not recorded the operation name; and in both scripts,
  under every operation name, a report whose \<open>Table\<close> entry is \<open>None\<close> raises an
  \<open>AttributeError\<close> and a list item whose base-table \<open>ReadCapacityUnits\<close> is the string
  \<open>'1'\<close> raises a \<open>TypeError\<close>, the tracker left as it was.
\<close>

theorem add_consumption_total_on_well_typed:
  "(well_typed cc \<longrightarrow>
      fst (add_consumption_join operation cc self) = Inr () \<and>
      operations (snd (add_consumption_join operation cc self)) = operations self @ [operation] \<and>
      fst (add_consumption_query operation cc self) = Inr () \<and>
      operations (snd (add_consumption_query operation cc self)) = operations self @ [operation])
   \<and> add_consumption_join operation (zero_filled cc) self = add_consumption_join operation cc self
   \<and> add_consumption_query operation (zero_filled cc) self = add_consumption_query operation cc self
   \<and> (case add_consumption_join operation cc self of
        (Inl e, self') \<Rightarrow> operations self' = operations self
      | (Inr u, self') \<Rightarrow> operations self' = operations self @ [operation])
   \<and> (case add_consumption_query operation cc self of
        (Inl e, self') \<Rightarrow> operations self' = operations self
      | (Inr u, self') \<Rightarrow> operations self' = operations self @ [operation])
   \<and> add_consumption_join operation (PDict [(''Table'', PNone)]) self
       = (Inl (no_attribute PNone ''get''), self)
   \<and> add_consumption_query operation (PDict [(''Table'', PNone)]) self
       = (Inl (no_attribute PNone ''get''), self)
   \<and> add_consumption_join operation
         (PList [PDict [(''Table'', PDict [(''ReadCapacityUnits'', PStr ''1'')])]]) self
       = (Inl (bad_operand (PStr ''1'')), self)
   \<and> add_consumption_query operation
         (PList [PDict [(''Table'', PDict [(''ReadCapacityUnits'', PStr ''1'')])]]) self
       = (Inl (bad_operand (PStr ''1'')), self)"
proof -
  have raises:
    "add_consumption_join operation (PDict [(''Table'', PNone)]) self
       = (Inl (no_attribute PNone ''get''), self)"
    "add_consumption_query operation (PDict [(''Table'', PNone)]) self
       = (Inl (no_attribute PNone ''get''), self)"
    "add_consumption_join operation
         (PList [PDict [(''Table'', PDict [(''ReadCapacityUnits'', PStr ''1'')])]]) self
       = (Inl (bad_operand (PStr ''1'')), self)"
    "add_consumption_query operation
         (PList [PDict [(''Table'', PDict [(''ReadCapacityUnits'', PStr ''1'')])]]) self
       = (Inl (bad_operand (PStr ''1'')), self)"
    by (simp_all add: add_consumption_join_def add_consumption_query_def fold_report_def
        item_report_join_def bnd_def lift_def table_units_def dict_get_def add_table_rcu_def
        has_key_def)
  from add_consumption_join_history [where operation = operation and cc = cc and self = self]
       add_consumption_query_history [where operation = operation and cc = cc and self = self]
  show ?thesis
    unfolding raises
    by (simp add: add_consumption_join_wt add_consumption_query_wt
        add_consumption_join_zero_filled add_consumption_query_zero_filled)
qed

text \<open>The theorem at a report that has an index entry only, with a single figure.\<close>

theorem add_consumption_total_on_well_typed_witness:
  "well_typed (PDict [(''GlobalSecondaryIndexes'', PDict [(''OpenGamesIndex'', PDict [(''CapacityUnits'', PNum 3)])])])
   \<and> add_consumption_join ''query_open_games_map_Neon City''
        (PDict [(''GlobalSecondaryIndexes'', PDict [(''OpenGamesIndex'', PDict [(''CapacityUnits'', PNum 3)])])])
        reset
      = (Inr (), reset\<lparr>total_rcu := 3,
                        gsi_consumption := [(''OpenGamesIndex'', \<lparr>rcu = 3, wcu = 0\<rparr>)],
                        operations := [''query_open_games_map_Neon City'']\<rparr>)
   \<and> add_consumption_join ''query_open_games_map_Neon City''
        (PDict [(''GlobalSecondaryIndexes'',
                 PDict [(''OpenGamesIndex'',
                         PDict [(''CapacityUnits'', PNum 3), (''ReadCapacityUnits'', PNum 0),
                                (''WriteCapacityUnits'', PNum 0)])]),
                (''Table'', PDict [(''ReadCapacityUnits'', PNum 0), (''WriteCapacityUnits'', PNum 0),
                                   (''CapacityUnits'', PNum 0)])])
        reset
      = (Inr (), reset\<lparr>total_rcu := 3,
                        gsi_consumption := [(''OpenGamesIndex'', \<lparr>rcu = 3, wcu = 0\<rparr>)],
                        operations := [''query_open_games_map_Neon City'']\<rparr>)"
proof -
  let ?cc = "PDict [(''GlobalSecondaryIndexes'', PDict [(''OpenGamesIndex'', PDict [(''CapacityUnits'', PNum 3)])])]"
  have wt: "well_typed ?cc"
    by (simp add: well_typed_report_def well_typed_entry_def dict_get_def)
  have run: "add_consumption_join ''query_open_games_map_Neon City'' ?cc reset
      = (Inr (), reset\<lparr>total_rcu := 3,
                        gsi_consumption := [(''OpenGamesIndex'', \<lparr>rcu = 3, wcu = 0\<rparr>)],
                        operations := [''query_open_games_map_Neon City'']\<rparr>)"
    by (simp add: add_consumption_join_wt [OF wt] units_join_def apply_report_def apply_units_def
        table_pair_def entry_pair_def fld_def dict_get_def total_pair_def has_key_def
        components_def gsi_sum_def gsi_entries_def gsi_fold_def gsi_bump_def gsi_usage_of_def
        is_read_join_def starts_with_def reset_def zero_usage_def)
  from add_consumption_total_on_well_typed
         [where cc = ?cc and operation = "''query_open_games_map_Neon City''" and self = reset]
       wt run
  show ?thesis
    by (simp add: zero_filled_report_def zero_fields_def)
qed

text \<open>
  C3 as stated fails: in both scripts a report whose \<open>Table\<close> entry is \<open>None\<close> makes
  \<open>add_consumption\<close> raise an \<open>AttributeError\<close>, a list item whose base-table
  \<open>ReadCapacityUnits\<close> is the string \<open>'1'\<close> makes it raise a \<open>TypeError\<close>, and the operation
  name is not recorded.
\<close>

theorem add_consumption_raises_counterexample:
  "add_consumption_join ''query_open_games_map_Neon City'' (PDict [(''Table'', PNone)]) reset
     = (Inl (AttributeError (CHR 0x27 # ''NoneType'' @ CHR 0x27 # '' object has no attribute ''
                              @ CHR 0x27 # ''get'' @ [CHR 0x27])), reset)
   \<and> add_consumption_query ''query_user_games_alice''
        (PList [PDict [(''Table'', PDict [(''ReadCapacityUnits'', PStr ''1'')])]]) reset
     = (Inl (TypeError (''unsupported operand type(s) for +=: '' @ CHR 0x27 # ''int'' @ CHR 0x27
                         # '' and '' @ CHR 0x27 # ''str'' @ [CHR 0x27])), reset)
   \<and> add_consumption_query ''query_user_games_alice'' (PDict [(''Table'', PNone)]) reset
     = (Inl (AttributeError (CHR 0x27 # ''NoneType'' @ CHR 0x27 # '' object has no attribute ''
                              @ CHR 0x27 # ''get'' @ [CHR 0x27])), reset)
   \<and> add_consumption_join ''join_game_transaction''
        (PList [PDict [(''Table'', PDict [(''ReadCapacityUnits'', PStr ''1'')])]]) reset
     = (Inl (TypeError (''unsupported operand type(s) for +=: '' @ CHR 0x27 # ''int'' @ CHR 0x27
                         # '' and '' @ CHR 0x27 # ''str'' @ [CHR 0x27])), reset)"
  by (simp add: add_consumption_join_def add_consumption_query_def fold_report_def
      item_report_join_def bnd_def lift_def table_units_def dict_get_def no_attribute_def
      bad_operand_def add_table_rcu_def has_key_def)

subsection \<open>The two scripts compared\<close>

lemma bnd_ret [simp]: "bnd (ret x) f = f x"
  by (simp add: bnd_def ret_def)

lemma bnd_lift_Inr [simp]: "bnd (lift (Inr x)) f = f x"
  by (simp add: bnd_def lift_def)

lemma bnd_lift_Inl [simp]: "bnd (lift (Inl e)) f = lift (Inl e)"
  by (simp add: bnd_def lift_def)

lemma item_report_join_eq_fold_report:
  assumes "has_key d ''CapacityUnits'' \<or> \<not> has_key d ''GlobalSecondaryIndexes''"
  shows "item_report_join rd d = fold_report rd d"
proof (cases "has_key d ''CapacityUnits''")
  case True
  then show ?thesis
    by (simp add: item_report_join_def fold_report_def add_totals_def)
next
  case False
  with assms have "map_of d ''GlobalSecondaryIndexes'' = None"
    by (simp add: has_key_def)
  with False show ?thesis
    by (simp add: item_report_join_def fold_report_def add_totals_def gsi_section_def
        item_sums_def)
qed

lemma list_loop_cong_items:
  "(\<And>d. PDict d \<in> set items \<Longrightarrow> body d = body' d) \<Longrightarrow>
   list_loop body items = list_loop body' items"
  by (induction items) (auto split: pyval.splits)

lemma is_read_join_query:
  "\<not> starts_with operation ''scan_'' \<Longrightarrow> is_read_join operation = is_read_query operation"
  by (simp add: is_read_join_def is_read_query_def)

lemma add_consumption_join_eq_query:
  assumes "\<not> starts_with operation ''scan_''" and "second_pass_free cc"
  shows "add_consumption_join operation cc = add_consumption_query operation cc"
proof (cases cc)
  case (PList items)
  have "list_loop (item_report_join (is_read_query operation)) items
          = list_loop (fold_report (is_read_query operation)) items"
  proof (rule list_loop_cong_items)
    fix d assume "PDict d \<in> set items"
    with assms(2) PList
    have "has_key d ''CapacityUnits'' \<or> \<not> has_key d ''GlobalSecondaryIndexes''"
      by (auto simp: list_all_iff)
    then show "item_report_join (is_read_query operation) d = fold_report (is_read_query operation) d"
      by (rule item_report_join_eq_fold_report)
  qed
  with PList assms(1) show ?thesis
    by (simp add: add_consumption_join_def add_consumption_query_def is_read_join_query)
qed (simp_all add: add_consumption_join_def add_consumption_query_def is_read_join_query assms(1))

lemma list_apply_accumulators:
  assumes "table_consumption s = table_consumption s'" "gsi_consumption s = gsi_consumption s'"
    "operations s = operations s'"
  shows "table_consumption (list_apply (apply_item_join rd) items s)
           = table_consumption (list_apply (apply_report rd) items s')
       \<and> gsi_consumption (list_apply (apply_item_join rd) items s)
           = gsi_consumption (list_apply (apply_report rd) items s')
       \<and> operations (list_apply (apply_item_join rd) items s)
           = operations (list_apply (apply_report rd) items s')"
  using assms
proof (induction items arbitrary: s s')
  case Nil
  then show ?case by (simp add: list_apply_def)
next
  case (Cons item items)
  show ?case
  proof (cases item)
    case (PDict d)
    have "table_consumption (apply_item_join rd d s) = table_consumption (apply_report rd d s')"
      "gsi_consumption (apply_item_join rd d s) = gsi_consumption (apply_report rd d s')"
      "operations (apply_item_join rd d s) = operations (apply_report rd d s')"
      using Cons.prems by (simp_all add: apply_item_join_def apply_report_def apply_units_def)
    from Cons.IH [OF this] PDict show ?thesis
      by (simp add: list_apply_def)
  qed (use Cons.IH [OF Cons.prems] in \<open>simp_all add: list_apply_def\<close>)
qed

text \<open>
  C7, as amended. For an operation name that does not start with \<open>scan_\<close>, the two
  implementations do the same (the same result or exception, the same tracker) on every report
  that is absent, a single mapping, any other non-list value, or a list whose mappings each
  carry a top-level \<open>CapacityUnits\<close> or have no \<open>GlobalSecondaryIndexes\<close> section; and on
  every well-typed report, such a list or not, both return and agree on the base-table
  accumulator, the per-index accumulators and the history.
\<close>

theorem add_consumption_versions_agree:
  "(\<not> starts_with operation ''scan_'' \<and> second_pass_free cc \<longrightarrow>
      add_consumption_join operation cc self = add_consumption_query operation cc self)
   \<and> (\<not> starts_with operation ''scan_'' \<and> well_typed cc \<longrightarrow>
      fst (add_consumption_join operation cc self) = Inr () \<and>
      fst (add_consumption_query operation cc self) = Inr () \<and>
      table_consumption (snd (add_consumption_join operation cc self))
        = table_consumption (snd (add_consumption_query operation cc self)) \<and>
      gsi_consumption (snd (add_consumption_join operation cc self))
        = gsi_consumption (snd (add_consumption_query operation cc self)) \<and>
      operations (snd (add_consumption_join operation cc self))
        = operations (snd (add_consumption_query operation cc self)))"
proof (intro conjI impI)
  assume "\<not> starts_with operation ''scan_'' \<and> second_pass_free cc"
  then show "add_consumption_join operation cc self = add_consumption_query operation cc self"
    by (simp add: add_consumption_join_eq_query)
next
  assume a: "\<not> starts_with operation ''scan_'' \<and> well_typed cc"
  then have rd: "is_read_join operation = is_read_query operation"
    by (simp add: is_read_join_query)
  from a show "fst (add_consumption_join operation cc self) = Inr ()"
    "fst (add_consumption_query operation cc self) = Inr ()"
    "operations (snd (add_consumption_join operation cc self))
        = operations (snd (add_consumption_query operation cc self))"
    by (simp_all add: add_consumption_join_wt add_consumption_query_wt)
  from a show "table_consumption (snd (add_consumption_join operation cc self))
        = table_consumption (snd (add_consumption_query operation cc self))"
    "gsi_consumption (snd (add_consumption_join operation cc self))
        = gsi_consumption (snd (add_consumption_query operation cc self))"
    using list_apply_accumulators [of self self "is_read_query operation"]
    by (cases cc; simp add: add_consumption_join_wt add_consumption_query_wt units_join_def
        units_query_def rd)+
qed

lemmas run_defs =
  add_consumption_join_def add_consumption_query_def fold_report_def item_report_join_def
  table_units_def gsi_units_def gsi_section_def add_totals_def item_sums_def item_gsi_term_def
  add_table_rcu_def add_table_wcu_def add_total_rcu_def add_total_wcu_def gsi_ensure_def
  add_gsi_rcu_def add_gsi_wcu_def gsi_usage_of_def append_operation_def bnd_def lift_def ret_def
  dict_get_def has_key_def is_read_join_def is_read_query_def starts_with_def reset_def
  zero_usage_def Let_def

text \<open>
  The theorem at the report of a transactional write: one item with a top-level total, a
  base-table entry and an index entry.
\<close>

theorem add_consumption_versions_agree_witness:
  "\<not> starts_with ''join_game_transaction'' ''scan_''
   \<and> second_pass_free
        (PList [PDict [(''TableName'', PStr ''battle-royale''), (''CapacityUnits'', PNum 4),
                       (''Table'', PDict [(''CapacityUnits'', PNum 2)]),
                       (''GlobalSecondaryIndexes'',
                        PDict [(''InvertedIndex'', PDict [(''CapacityUnits'', PNum 2)])])]])
   \<and> well_typed
        (PList [PDict [(''TableName'', PStr ''battle-royale''), (''CapacityUnits'', PNum 4),
                       (''Table'', PDict [(''CapacityUnits'', PNum 2)]),
                       (''GlobalSecondaryIndexes'',
                        PDict [(''InvertedIndex'', PDict [(''CapacityUnits'', PNum 2)])])]])
   \<and> add_consumption_join ''join_game_transaction''
        (PList [PDict [(''TableName'', PStr ''battle-royale''), (''CapacityUnits'', PNum 4),
                       (''Table'', PDict [(''CapacityUnits'', PNum 2)]),
                       (''GlobalSecondaryIndexes'',
                        PDict [(''InvertedIndex'', PDict [(''CapacityUnits'', PNum 2)])])]])
        reset
     = (Inr (), \<lparr>total_rcu = 0, total_wcu = 4, table_consumption = \<lparr>rcu = 0, wcu = 2\<rparr>,
                 gsi_consumption = [(''InvertedIndex'', \<lparr>rcu = 0, wcu = 2\<rparr>)],
                 operations = [''join_game_transaction''], status = ''success'', error = None\<rparr>)
   \<and> add_consumption_query ''join_game_transaction''
        (PList [PDict [(''TableName'', PStr ''battle-royale''), (''CapacityUnits'', PNum 4),
                       (''Table'', PDict [(''CapacityUnits'', PNum 2)]),
                       (''GlobalSecondaryIndexes'',
                        PDict [(''InvertedIndex'', PDict [(''CapacityUnits'', PNum 2)])])]])
        reset
     = (Inr (), \<lparr>total_rcu = 0, total_wcu = 4, table_consumption = \<lparr>rcu = 0, wcu = 2\<rparr>,
                 gsi_consumption = [(''InvertedIndex'', \<lparr>rcu = 0, wcu = 2\<rparr>)],
                 operations = [''join_game_transaction''], status = ''success'', error = None\<rparr>)"
proof -
  let ?cc = "PList [PDict [(''TableName'', PStr ''battle-royale''), (''CapacityUnits'', PNum 4),
                       (''Table'', PDict [(''CapacityUnits'', PNum 2)]),
                       (''GlobalSecondaryIndexes'',
                        PDict [(''InvertedIndex'', PDict [(''CapacityUnits'', PNum 2)])])]]"
  have h: "\<not> starts_with ''join_game_transaction'' ''scan_''" "second_pass_free ?cc"
    "well_typed ?cc"
    by (simp_all add: starts_with_def has_key_def well_typed_report_def well_typed_entry_def
        dict_get_def)
  have run: "add_consumption_query ''join_game_transaction'' ?cc reset
     = (Inr (), \<lparr>total_rcu = 0, total_wcu = 4, table_consumption = \<lparr>rcu = 0, wcu = 2\<rparr>,
                 gsi_consumption = [(''InvertedIndex'', \<lparr>rcu = 0, wcu = 2\<rparr>)],
                 operations = [''join_game_transaction''], status = ''success'', error = None\<rparr>)"
    by (simp add: run_defs)
  from add_consumption_versions_agree
         [where operation = "''join_game_transaction''" and cc = ?cc and self = reset] h
  have "add_consumption_join ''join_game_transaction'' ?cc reset
          = add_consumption_query ''join_game_transaction'' ?cc reset"
    by blast
  with h run show ?thesis by (simp only: simp_thms)
qed

text \<open>
  C7 as stated fails: under the name \<open>scan_users\<close> the same undifferentiated total goes to
  the read units in one script and to the write units in the other.
\<close>

theorem add_consumption_versions_differ_counterexample:
  "add_consumption_join ''scan_users'' (PDict [(''CapacityUnits'', PNum 5)]) reset
     = (Inr (), reset\<lparr>total_rcu := 5, operations := [''scan_users'']\<rparr>)
   \<and> add_consumption_query ''scan_users'' (PDict [(''CapacityUnits'', PNum 5)]) reset
     = (Inr (), reset\<lparr>total_wcu := 5, operations := [''scan_users'']\<rparr>)"
  by (simp add: run_defs)

subsection \<open>One list or one report at a time\<close>

lemma bnd_assoc: "bnd (bnd m f) g = bnd m (\<lambda>x. bnd (f x) g)"
  by (auto simp: bnd_def fun_eq_iff split: prod.splits sum.splits)

lemma bnd_ret_unit: "bnd m (\<lambda>_. ret ()) = (m :: unit prog)"
  by (auto simp: bnd_def ret_def fun_eq_iff split: prod.splits sum.splits)

lemma bnd_ret_right: "bnd m ret = m"
  by (auto simp: bnd_def ret_def fun_eq_iff split: prod.splits sum.splits)

lemma same_but_history_refl: "keeps_history m \<Longrightarrow> same_but_history m m"
  by (simp add: same_but_history_def keeps_history_def erase_def)

lemma eraseD:
  assumes "erase (r, s) = erase (r', s')"
  shows "r = r' \<and> s = s'\<lparr>operations := operations s\<rparr>"
proof -
  from assms have r: "r = r'" and e: "s\<lparr>operations := []\<rparr> = s'\<lparr>operations := []\<rparr>"
    by (simp_all add: erase_def)
  from e have "(s\<lparr>operations := []\<rparr>)\<lparr>operations := operations s\<rparr>
                 = (s'\<lparr>operations := []\<rparr>)\<lparr>operations := operations s\<rparr>"
    by simp
  with r show ?thesis by simp
qed

lemma same_but_history_bnd:
  assumes "same_but_history m m'" and "\<And>x. same_but_history (f x) (f' x)"
  shows "same_but_history (bnd m f) (bnd m' f')"
  unfolding same_but_history_def
proof (intro allI)
  fix self ops
  obtain r s where ms: "m (self\<lparr>operations := ops\<rparr>) = (r, s)"
    by (cases "m (self\<lparr>operations := ops\<rparr>)")
  obtain r' s' where ms': "m' self = (r', s')" by (cases "m' self")
  from assms(1) ms ms' have "erase (r, s) = erase (r', s')"
    by (metis same_but_history_def)
  then have r: "r = r'" and s: "s = s'\<lparr>operations := operations s\<rparr>"
    using eraseD by blast+
  from ms' r have ms'': "m' self = (r, s')" by simp
  show "erase (bnd m f (self\<lparr>operations := ops\<rparr>)) = erase (bnd m' f' self)"
  proof (cases r)
    case (Inl e)
    have "bnd m f (self\<lparr>operations := ops\<rparr>) = (Inl e, s)" "bnd m' f' self = (Inl e, s')"
      by (simp_all add: bnd_def ms ms'' Inl)
    with \<open>erase (r, s) = erase (r', s')\<close> show ?thesis by (simp add: erase_def)
  next
    case (Inr x)
    from assms(2) [of x] have "erase (f x (s'\<lparr>operations := operations s\<rparr>)) = erase (f' x s')"
      by (simp add: same_but_history_def)
    with s have e: "erase (f x s) = erase (f' x s')" by simp
    have "bnd m f (self\<lparr>operations := ops\<rparr>) = f x s" "bnd m' f' self = f' x s'"
      by (simp_all add: bnd_def ms ms'' Inr)
    with e show ?thesis by simp
  qed
qed

lemma same_but_history_append:
  assumes "same_but_history m m'"
  shows "same_but_history (bnd m (\<lambda>_. append_operation operation)) (m' :: unit prog)"
  unfolding same_but_history_def
proof (intro allI)
  fix self ops
  obtain r s where ms: "m (self\<lparr>operations := ops\<rparr>) = (r, s)"
    by (cases "m (self\<lparr>operations := ops\<rparr>)")
  from assms have e: "erase (m (self\<lparr>operations := ops\<rparr>)) = erase (m' self)"
    by (simp add: same_but_history_def)
  have "erase (bnd m (\<lambda>_. append_operation operation) (self\<lparr>operations := ops\<rparr>))
          = erase (r, s)"
    using ms by (cases r) (simp_all add: bnd_def append_operation_def erase_def)
  with e ms show "erase (bnd m (\<lambda>_. append_operation operation) (self\<lparr>operations := ops\<rparr>))
                  = erase (m' self)"
    by simp
qed

lemma keeps_history_step: "(\<And>d. keeps_history (body d)) \<Longrightarrow> keeps_history (step body item)"
  by (cases item) (simp_all add: step_def keeps_history_ret)

lemma grouped_or_single_erase:
  assumes k: "\<And>d. keeps_history (body d)"
  shows "erase (then_run (bnd (list_loop body [A, B]) (\<lambda>_. append_operation operation))
                         (bnd (list_loop body [C]) (\<lambda>_. append_operation operation)) self)
       = erase (then_run (bnd (step body A) (\<lambda>_. append_operation operation))
                  (then_run (bnd (step body B) (\<lambda>_. append_operation operation))
                            (bnd (step body C) (\<lambda>_. append_operation operation))) self)"
proof -
  let ?app = "append_operation operation"
  let ?AB = "bnd (step body A) (\<lambda>_. step body B)"
  let ?T = "bnd (step body A) (\<lambda>_. bnd (step body B) (\<lambda>_. step body C))"
  have AB: "list_loop body [A, B] = ?AB"
    by (simp add: step_def bnd_ret_unit bnd_ret_right)
  have C: "list_loop body [C] = step body C"
    by (simp add: step_def bnd_ret_unit bnd_ret_right)
  have T: "bnd ?AB (\<lambda>_. step body C) = ?T"
    by (simp add: bnd_assoc)
  have kA: "same_but_history (step body A) (step body A)"
    and kB: "same_but_history (step body B) (step body B)"
    and kC: "same_but_history (step body C) (step body C)"
    by (simp_all add: same_but_history_refl keeps_history_step k)
  have sA: "same_but_history (bnd (step body A) (\<lambda>_. ?app)) (step body A)"
    and sB: "same_but_history (bnd (step body B) (\<lambda>_. ?app)) (step body B)"
    and sC: "same_but_history (bnd (step body C) (\<lambda>_. ?app)) (step body C)"
    by (rule same_but_history_append [OF kA], rule same_but_history_append [OF kB],
        rule same_but_history_append [OF kC])
  have sAB: "same_but_history (bnd ?AB (\<lambda>_. ?app)) ?AB"
    by (rule same_but_history_append [OF same_but_history_bnd [OF kA kB]])
  have "same_but_history (bnd (bnd ?AB (\<lambda>_. ?app)) (\<lambda>_. bnd (step body C) (\<lambda>_. ?app)))
          (bnd ?AB (\<lambda>_. step body C))"
    by (rule same_but_history_bnd [OF sAB sC])
  then have l: "same_but_history
             (then_run (bnd (list_loop body [A, B]) (\<lambda>_. ?app))
                       (bnd (list_loop body [C]) (\<lambda>_. ?app))) ?T"
    by (simp only: then_run_def AB C T)
  have "same_but_history
          (bnd (bnd (step body A) (\<lambda>_. ?app))
             (\<lambda>_. bnd (bnd (step body B) (\<lambda>_. ?app)) (\<lambda>_. bnd (step body C) (\<lambda>_. ?app)))) ?T"
    by (rule same_but_history_bnd [OF sA same_but_history_bnd [OF sB sC]])
  then have r: "same_but_history
             (then_run (bnd (step body A) (\<lambda>_. ?app))
                (then_run (bnd (step body B) (\<lambda>_. ?app))
                          (bnd (step body C) (\<lambda>_. ?app)))) ?T"
    by (simp only: then_run_def)
  from l have "erase (then_run (bnd (list_loop body [A, B]) (\<lambda>_. ?app))
                       (bnd (list_loop body [C]) (\<lambda>_. ?app))
                       (self\<lparr>operations := operations self\<rparr>)) = erase (?T self)"
    unfolding same_but_history_def by blast
  moreover from r have "erase (then_run (bnd (step body A) (\<lambda>_. ?app))
                (then_run (bnd (step body B) (\<lambda>_. ?app))
                          (bnd (step body C) (\<lambda>_. ?app)))
                (self\<lparr>operations := operations self\<rparr>)) = erase (?T self)"
    unfolding same_but_history_def by blast
  ultimately show ?thesis by simp
qed

lemma units_of_erase: "erase p = erase q \<Longrightarrow> units_of p = units_of q"
proof -
  assume e: "erase p = erase q"
  obtain r s where p: "p = (r, s)" by (cases p)
  obtain r' s' where q: "q = (r', s')" by (cases q)
  from e p q have "r = r' \<and> s = s'\<lparr>operations := operations s\<rparr>"
    using eraseD by blast
  then have "r = r'" "total_rcu s = total_rcu s'" "total_wcu s = total_wcu s'"
    "table_consumption s = table_consumption s'" "gsi_consumption s = gsi_consumption s'"
    by (metis, (metis tracker.select_convs tracker.surjective tracker.update_convs(5))+)
  with p q show ?thesis by (simp add: units_of_def)
qed

lemma add_consumption_query_step:
  "add_consumption_query operation (PList items)
     = bnd (list_loop (fold_report (is_read_query operation)) items)
           (\<lambda>_. append_operation operation)"
  "\<not> is_list X \<Longrightarrow>
   add_consumption_query operation X
     = bnd (step (fold_report (is_read_query operation)) X) (\<lambda>_. append_operation operation)"
  by (cases X; simp add: add_consumption_query_def step_def)+

lemma add_consumption_join_step:
  "second_pass_free (PList items) \<Longrightarrow>
   add_consumption_join operation (PList items)
     = bnd (list_loop (fold_report (is_read_join operation)) items)
           (\<lambda>_. append_operation operation)"
  "\<not> is_list X \<Longrightarrow>
   add_consumption_join operation X
     = bnd (step (fold_report (is_read_join operation)) X) (\<lambda>_. append_operation operation)"
proof -
  assume spf: "second_pass_free (PList items)"
  have "list_loop (item_report_join (is_read_join operation)) items
          = list_loop (fold_report (is_read_join operation)) items"
  proof (rule list_loop_cong_items)
    fix d assume "PDict d \<in> set items"
    with spf have "has_key d ''CapacityUnits'' \<or> \<not> has_key d ''GlobalSecondaryIndexes''"
      by (auto simp: list_all_iff)
    then show "item_report_join (is_read_join operation) d = fold_report (is_read_join operation) d"
      by (rule item_report_join_eq_fold_report)
  qed
  then show "add_consumption_join operation (PList items)
     = bnd (list_loop (fold_report (is_read_join operation)) items)
           (\<lambda>_. append_operation operation)"
    by (simp add: add_consumption_join_def)
next
  assume "\<not> is_list X"
  then show "add_consumption_join operation X
     = bnd (step (fold_report (is_read_join operation)) X) (\<lambda>_. append_operation operation)"
    by (cases X) (simp_all add: add_consumption_join_def step_def)
qed

lemma well_typed_item: "\<not> is_list X \<Longrightarrow> (case X of PDict d \<Rightarrow> well_typed_report d | _ \<Rightarrow> True) = well_typed X"
  by (cases X) simp_all

lemma join_item_or_single:
  assumes "\<not> is_list X" "table_consumption s = table_consumption s'"
    "gsi_consumption s = gsi_consumption s'"
  shows "table_consumption (list_apply (apply_item_join (is_read_join operation)) [X] s)
           = table_consumption (units_join operation X s')
       \<and> gsi_consumption (list_apply (apply_item_join (is_read_join operation)) [X] s)
           = gsi_consumption (units_join operation X s')"
  using assms
  by (cases X) (simp_all add: list_apply_def units_join_def apply_item_join_def apply_report_def
      apply_units_def)

lemma list_apply_append:
  "list_apply f (xs @ ys) s = list_apply f ys (list_apply f xs s)"
  by (simp add: list_apply_def)

text \<open>
  Where grouping makes no difference. Let A, B and C be reports that are not lists (absent, a
  single mapping, or any other value). In \<open>query_user_games.py\<close>, recording \<open>[A, B]\<close> and then
  \<open>[C]\<close> gives the same outcome and the same total read units, total write units, base-table
  accumulator and per-index accumulators as recording A, B and C one by one. In
  \<open>join_game_with_opengamesindex.py\<close> the same holds when each mapping carries a top-level
  \<open>CapacityUnits\<close> or has no \<open>GlobalSecondaryIndexes\<close> section; and for well-typed A, B and
  C both ways return and agree on the base-table and per-index accumulators.
\<close>

lemma grouped_or_single_same_units:
  "\<not> is_list A \<and> \<not> is_list B \<and> \<not> is_list C \<longrightarrow>
     units_of (then_run (add_consumption_query operation (PList [A, B]))
                        (add_consumption_query operation (PList [C])) self)
       = units_of (then_run (add_consumption_query operation A)
                    (then_run (add_consumption_query operation B)
                              (add_consumption_query operation C)) self)
     \<and> (second_pass_free (PList [A, B, C]) \<longrightarrow>
          units_of (then_run (add_consumption_join operation (PList [A, B]))
                             (add_consumption_join operation (PList [C])) self)
            = units_of (then_run (add_consumption_join operation A)
                         (then_run (add_consumption_join operation B)
                                   (add_consumption_join operation C)) self))
     \<and> (well_typed A \<and> well_typed B \<and> well_typed C \<longrightarrow>
          fst (then_run (add_consumption_join operation (PList [A, B]))
                        (add_consumption_join operation (PList [C])) self) = Inr ()
          \<and> fst (then_run (add_consumption_join operation A)
                   (then_run (add_consumption_join operation B)
                             (add_consumption_join operation C)) self) = Inr ()
          \<and> table_consumption
               (snd (then_run (add_consumption_join operation (PList [A, B]))
                              (add_consumption_join operation (PList [C])) self))
              = table_consumption
                  (snd (then_run (add_consumption_join operation A)
                         (then_run (add_consumption_join operation B)
                                   (add_consumption_join operation C)) self))
          \<and> gsi_consumption
               (snd (then_run (add_consumption_join operation (PList [A, B]))
                              (add_consumption_join operation (PList [C])) self))
              = gsi_consumption
                  (snd (then_run (add_consumption_join operation A)
                         (then_run (add_consumption_join operation B)
                                   (add_consumption_join operation C)) self)))"
proof (intro impI conjI; (elim conjE)?)
  assume nl: "\<not> is_list A" "\<not> is_list B" "\<not> is_list C"
  show "units_of (then_run (add_consumption_query operation (PList [A, B]))
                        (add_consumption_query operation (PList [C])) self)
       = units_of (then_run (add_consumption_query operation A)
                    (then_run (add_consumption_query operation B)
                              (add_consumption_query operation C)) self)"
    unfolding add_consumption_query_step(1) add_consumption_query_step(2) [OF nl(1)]
      add_consumption_query_step(2) [OF nl(2)] add_consumption_query_step(2) [OF nl(3)]
    by (rule units_of_erase) (rule grouped_or_single_erase [OF keeps_history_fold_report])
next
  assume nl: "\<not> is_list A" "\<not> is_list B" "\<not> is_list C"
    and spf: "second_pass_free (PList [A, B, C])"
  then have ab: "second_pass_free (PList [A, B])" and c: "second_pass_free (PList [C])"
    by simp_all
  show "units_of (then_run (add_consumption_join operation (PList [A, B]))
                             (add_consumption_join operation (PList [C])) self)
            = units_of (then_run (add_consumption_join operation A)
                         (then_run (add_consumption_join operation B)
                                   (add_consumption_join operation C)) self)"
    unfolding add_consumption_join_step(1) [OF ab] add_consumption_join_step(1) [OF c]
      add_consumption_join_step(2) [OF nl(1)]
      add_consumption_join_step(2) [OF nl(2)] add_consumption_join_step(2) [OF nl(3)]
    by (rule units_of_erase) (rule grouped_or_single_erase [OF keeps_history_fold_report])
next
  assume nl: "\<not> is_list A" "\<not> is_list B" "\<not> is_list C"
    and wt: "well_typed A" "well_typed B" "well_typed C"
  then have wl: "well_typed (PList [A, B])" "well_typed (PList [C])"
    by (simp_all add: well_typed_item)
  let ?rd = "is_read_join operation"
  let ?l1 = "(units_join operation (PList [A, B]) self)
               \<lparr>operations := operations self @ [operation]\<rparr>"
  let ?l2 = "(units_join operation (PList [C]) ?l1)\<lparr>operations := operations ?l1 @ [operation]\<rparr>"
  let ?r1 = "(units_join operation A self)\<lparr>operations := operations self @ [operation]\<rparr>"
  let ?r2 = "(units_join operation B ?r1)\<lparr>operations := operations ?r1 @ [operation]\<rparr>"
  let ?r3 = "(units_join operation C ?r2)\<lparr>operations := operations ?r2 @ [operation]\<rparr>"
  have l: "then_run (add_consumption_join operation (PList [A, B]))
                    (add_consumption_join operation (PList [C])) self = (Inr (), ?l2)"
    by (simp add: then_run_def bnd_def add_consumption_join_wt [OF wl(1)]
        add_consumption_join_wt [OF wl(2)])
  have r: "then_run (add_consumption_join operation A)
             (then_run (add_consumption_join operation B)
                       (add_consumption_join operation C)) self = (Inr (), ?r3)"
    by (simp add: then_run_def bnd_def add_consumption_join_wt [OF wt(1)]
        add_consumption_join_wt [OF wt(2)] add_consumption_join_wt [OF wt(3)])
  have a: "table_consumption (list_apply (apply_item_join ?rd) [A] self) = table_consumption ?r1
         \<and> gsi_consumption (list_apply (apply_item_join ?rd) [A] self) = gsi_consumption ?r1"
    using join_item_or_single [OF nl(1), of self self operation] by simp
  have b: "table_consumption (list_apply (apply_item_join ?rd) [B]
                                (list_apply (apply_item_join ?rd) [A] self))
             = table_consumption ?r2
         \<and> gsi_consumption (list_apply (apply_item_join ?rd) [B]
                                (list_apply (apply_item_join ?rd) [A] self))
             = gsi_consumption ?r2"
    using join_item_or_single [OF nl(2), of "list_apply (apply_item_join ?rd) [A] self" ?r1 operation] a
    by simp
  have ab: "units_join operation (PList [A, B]) self
              = list_apply (apply_item_join ?rd) [B] (list_apply (apply_item_join ?rd) [A] self)"
    by (simp add: units_join_def list_apply_def)
  have c: "table_consumption (list_apply (apply_item_join ?rd) [C] ?l1) = table_consumption ?r3
         \<and> gsi_consumption (list_apply (apply_item_join ?rd) [C] ?l1) = gsi_consumption ?r3"
    using join_item_or_single [OF nl(3), of ?l1 ?r2 operation] b ab
    by simp
  have cl: "units_join operation (PList [C]) ?l1 = list_apply (apply_item_join ?rd) [C] ?l1"
    by (simp add: units_join_def)
  show "fst (then_run (add_consumption_join operation (PList [A, B]))
                        (add_consumption_join operation (PList [C])) self) = Inr ()"
    "fst (then_run (add_consumption_join operation A)
                   (then_run (add_consumption_join operation B)
                             (add_consumption_join operation C)) self) = Inr ()"
    by (simp_all add: l r)
  show "table_consumption
               (snd (then_run (add_consumption_join operation (PList [A, B]))
                              (add_consumption_join operation (PList [C])) self))
              = table_consumption
                  (snd (then_run (add_consumption_join operation A)
                         (then_run (add_consumption_join operation B)
                                   (add_consumption_join operation C)) self))"
    "gsi_consumption
               (snd (then_run (add_consumption_join operation (PList [A, B]))
                              (add_consumption_join operation (PList [C])) self))
              = gsi_consumption
                  (snd (then_run (add_consumption_join operation A)
                         (then_run (add_consumption_join operation B)
                                   (add_consumption_join operation C)) self))"
    using c by (simp_all add: l r cl)
qed

text \<open>
  C6 at three reports under a write-shaped name. A has a base-table entry with 2 write units
  and an index entry with 1 read unit and 2 write units, and no top-level \<open>CapacityUnits\<close>;
  B and C are absent. In \<open>join_game_with_opengamesindex.py\<close>, recording \<open>[A, B]\<close> and then
  \<open>[C]\<close> leaves 0 total read units, and recording A, B and C one by one leaves 1; the total
  write units, the base-table accumulator and the per-index accumulators are the same both
  ways. The list branch leaves the index's read unit out of the total. In
  \<open>query_user_games.py\<close> both ways leave 1 total read unit.
\<close>

theorem grouped_list_total_differs_from_single_reports:
  "units_of (then_run
       (add_consumption_join ''join_game_transaction''
          (PList [PDict [(''Table'', PDict [(''WriteCapacityUnits'', PNum 2)]),
                         (''GlobalSecondaryIndexes'',
                          PDict [(''InvertedIndex'',
                                  PDict [(''ReadCapacityUnits'', PNum 1),
                                         (''WriteCapacityUnits'', PNum 2)])])],
                  PNone]))
       (add_consumption_join ''join_game_transaction'' (PList [PNone])) reset)
     = (Inr (), 0, 4, \<lparr>rcu = 0, wcu = 2\<rparr>, [(''InvertedIndex'', \<lparr>rcu = 1, wcu = 2\<rparr>)])
   \<and> units_of (then_run
       (add_consumption_join ''join_game_transaction''
          (PDict [(''Table'', PDict [(''WriteCapacityUnits'', PNum 2)]),
                  (''GlobalSecondaryIndexes'',
                   PDict [(''InvertedIndex'',
                           PDict [(''ReadCapacityUnits'', PNum 1),
                                  (''WriteCapacityUnits'', PNum 2)])])]))
       (then_run (add_consumption_join ''join_game_transaction'' PNone)
                 (add_consumption_join ''join_game_transaction'' PNone)) reset)
     = (Inr (), 1, 4, \<lparr>rcu = 0, wcu = 2\<rparr>, [(''InvertedIndex'', \<lparr>rcu = 1, wcu = 2\<rparr>)])
   \<and> units_of (then_run
       (add_consumption_query ''join_game_transaction''
          (PList [PDict [(''Table'', PDict [(''WriteCapacityUnits'', PNum 2)]),
                         (''GlobalSecondaryIndexes'',
                          PDict [(''InvertedIndex'',
                                  PDict [(''ReadCapacityUnits'', PNum 1),
                                         (''WriteCapacityUnits'', PNum 2)])])],
                  PNone]))
       (add_consumption_query ''join_game_transaction'' (PList [PNone])) reset)
     = (Inr (), 1, 4, \<lparr>rcu = 0, wcu = 2\<rparr>, [(''InvertedIndex'', \<lparr>rcu = 1, wcu = 2\<rparr>)])
   \<and> units_of (then_run
       (add_consumption_query ''join_game_transaction''
          (PDict [(''Table'', PDict [(''WriteCapacityUnits'', PNum 2)]),
                  (''GlobalSecondaryIndexes'',
                   PDict [(''InvertedIndex'',
                           PDict [(''ReadCapacityUnits'', PNum 1),
                                  (''WriteCapacityUnits'', PNum 2)])])]))
       (then_run (add_consumption_query ''join_game_transaction'' PNone)
                 (add_consumption_query ''join_game_transaction'' PNone)) reset)
     = (Inr (), 1, 4, \<lparr>rcu = 0, wcu = 2\<rparr>, [(''InvertedIndex'', \<lparr>rcu = 1, wcu = 2\<rparr>)])"
  by (simp add: units_of_def then_run_def run_defs)

subsection \<open>The naming rule\<close>

lemma entry_pair_single_figure:
  "single_figure e n \<Longrightarrow> entry_pair rd (PDict e) = classified rd n"
  by (simp add: single_figure_def entry_pair_def fld_def dict_get_def classified_def)

lemma table_pair_single_figure:
  "map_of d ''Table'' = Some (PDict e) \<Longrightarrow> single_figure e n \<Longrightarrow>
   table_pair rd d = classified rd n"
  by (simp add: table_pair_def dict_get_def entry_pair_single_figure)

lemma total_pair_figure:
  "map_of d ''CapacityUnits'' = Some (PNum n) \<Longrightarrow> total_pair rd d = classified rd n"
  "map_of d ''CapacityUnits'' = Some (PNum n) \<Longrightarrow> item_total_join rd d = classified rd n"
  by (simp_all add: total_pair_def item_total_join_def has_key_def fld_def dict_get_def
      classified_def)

lemma gsi_usage_of_bump:
  "gsi_usage_of (gsi_bump k p g0) g
     = (if g = k then add_usage (gsi_usage_of g0 g) p else gsi_usage_of g0 g)"
  by (simp add: gsi_bump_def gsi_usage_of_def update_conv' add_usage_def)

lemma gsi_usage_of_fold_other:
  "g \<notin> fst ` set gs \<Longrightarrow> gsi_usage_of (gsi_fold rd gs g0) g = gsi_usage_of g0 g"
proof (induction gs arbitrary: g0)
  case Nil
  then show ?case by (simp add: gsi_fold_def)
next
  case (Cons a gs)
  from Cons.prems have "g \<noteq> fst a" "g \<notin> fst ` set gs" by auto
  with Cons.IH [of "gsi_bump (fst a) (entry_pair rd (snd a)) g0"] show ?case
    by (simp add: gsi_fold_def gsi_usage_of_bump)
qed

lemma gsi_usage_of_fold:
  "distinct (map fst gs) \<Longrightarrow> map_of gs g = Some v \<Longrightarrow>
   gsi_usage_of (gsi_fold rd gs g0) g = add_usage (gsi_usage_of g0 g) (entry_pair rd v)"
proof (induction gs arbitrary: g0)
  case Nil
  then show ?case by simp
next
  case (Cons a gs)
  show ?case
  proof (cases "g = fst a")
    case True
    with Cons.prems have v: "v = snd a" and "g \<notin> fst ` set gs" by auto
    with True gsi_usage_of_fold_other [of g gs rd "gsi_bump (fst a) (entry_pair rd (snd a)) g0"]
    show ?thesis
      by (simp add: gsi_fold_def gsi_usage_of_bump)
  next
    case False
    with Cons.prems have "distinct (map fst gs)" "map_of gs g = Some v" by auto
    from Cons.IH [OF this, of "gsi_bump (fst a) (entry_pair rd (snd a)) g0"] False
    show ?thesis
      by (simp add: gsi_fold_def gsi_usage_of_bump)
  qed
qed

lemma units_single_or_singleton:
  assumes "cc = PDict d \<or> cc = PList [PDict d]"
  shows "table_consumption (units_join operation cc self)
           = add_usage (table_consumption self) (table_pair (is_read_join operation) d)"
    "table_consumption (units_query operation cc self)
           = add_usage (table_consumption self) (table_pair (is_read_query operation) d)"
    "gsi_consumption (units_join operation cc self)
           = gsi_fold (is_read_join operation) (gsi_entries d) (gsi_consumption self)"
    "gsi_consumption (units_query operation cc self)
           = gsi_fold (is_read_query operation) (gsi_entries d) (gsi_consumption self)"
    "total_rcu (units_query operation cc self)
           = total_rcu self + fst (total_pair (is_read_query operation) d)"
    "total_wcu (units_query operation cc self)
           = total_wcu self + snd (total_pair (is_read_query operation) d)"
    "total_rcu (units_join operation cc self)
           = total_rcu self + fst (if cc = PDict d then total_pair (is_read_join operation) d
                                   else item_total_join (is_read_join operation) d)"
    "total_wcu (units_join operation cc self)
           = total_wcu self + snd (if cc = PDict d then total_pair (is_read_join operation) d
                                   else item_total_join (is_read_join operation) d)"
  using assms
  by (auto simp: units_join_def units_query_def list_apply_def apply_report_def
      apply_item_join_def apply_units_def add_usage_def)

text \<open>
  C5, as amended. On a well-typed report, recorded as a single mapping or as the one item of
  a list, a single undifferentiated figure of the base-table entry, of an index entry, or at
  the top level of the report goes to the read units exactly when the operation name is
  read-shaped, and to the write units otherwise. In \<open>join_game_with_opengamesindex.py\<close> a
  name is read-shaped when it starts with \<open>get_\<close>, \<open>query_\<close> or \<open>scan_\<close>; in
  \<open>query_user_games.py\<close> when it starts with \<open>get_\<close> or \<open>query_\<close>. Nothing but the name
  decides.
\<close>

theorem single_figure_classified_by_name:
  assumes "well_typed_report d" and "cc = PDict d \<or> cc = PList [PDict d]"
  shows
  "(map_of d ''Table'' = Some (PDict e) \<and> single_figure e n \<longrightarrow>
      table_consumption (snd (add_consumption_join operation cc self))
        = add_usage (table_consumption self)
            (classified (starts_with operation ''get_'' \<or> starts_with operation ''query_''
                         \<or> starts_with operation ''scan_'') n)
      \<and> table_consumption (snd (add_consumption_query operation cc self))
        = add_usage (table_consumption self)
            (classified (starts_with operation ''get_'' \<or> starts_with operation ''query_'') n))
   \<and> (map_of d ''GlobalSecondaryIndexes'' = Some (PDict gs) \<and> distinct (map fst gs)
        \<and> map_of gs g = Some (PDict e') \<and> single_figure e' n' \<longrightarrow>
      gsi_usage_of (gsi_consumption (snd (add_consumption_join operation cc self))) g
        = add_usage (gsi_usage_of (gsi_consumption self) g)
            (classified (starts_with operation ''get_'' \<or> starts_with operation ''query_''
                         \<or> starts_with operation ''scan_'') n')
      \<and> gsi_usage_of (gsi_consumption (snd (add_consumption_query operation cc self))) g
        = add_usage (gsi_usage_of (gsi_consumption self) g)
            (classified (starts_with operation ''get_'' \<or> starts_with operation ''query_'') n'))
   \<and> (map_of d ''CapacityUnits'' = Some (PNum t) \<longrightarrow>
      (total_rcu (snd (add_consumption_join operation cc self)),
       total_wcu (snd (add_consumption_join operation cc self)))
        = (total_rcu self
             + fst (classified (starts_with operation ''get_'' \<or> starts_with operation ''query_''
                                \<or> starts_with operation ''scan_'') t),
           total_wcu self
             + snd (classified (starts_with operation ''get_'' \<or> starts_with operation ''query_''
                                \<or> starts_with operation ''scan_'') t))
      \<and> (total_rcu (snd (add_consumption_query operation cc self)),
          total_wcu (snd (add_consumption_query operation cc self)))
        = (total_rcu self
             + fst (classified (starts_with operation ''get_'' \<or> starts_with operation ''query_'') t),
           total_wcu self
             + snd (classified (starts_with operation ''get_'' \<or> starts_with operation ''query_'') t)))"
proof -
  from assms have wt: "well_typed cc" by auto
  note u = units_single_or_singleton [OF assms(2), of operation self]
  have j: "snd (add_consumption_join operation cc self)
             = (units_join operation cc self)
                 \<lparr>operations := operations (units_join operation cc self) @ [operation]\<rparr>"
    and q: "snd (add_consumption_query operation cc self)
             = (units_query operation cc self)
                 \<lparr>operations := operations (units_query operation cc self) @ [operation]\<rparr>"
    by (simp_all add: add_consumption_join_wt [OF wt] add_consumption_query_wt [OF wt])
  show ?thesis
  proof (intro conjI impI; (elim conjE)?)
    assume "map_of d ''Table'' = Some (PDict e)" "single_figure e n"
    then show "table_consumption (snd (add_consumption_join operation cc self))
        = add_usage (table_consumption self)
            (classified (starts_with operation ''get_'' \<or> starts_with operation ''query_''
                         \<or> starts_with operation ''scan_'') n)"
      "table_consumption (snd (add_consumption_query operation cc self))
        = add_usage (table_consumption self)
            (classified (starts_with operation ''get_'' \<or> starts_with operation ''query_'') n)"
      by (simp_all add: j q u table_pair_single_figure is_read_join_def is_read_query_def)
  next
    assume g: "map_of d ''GlobalSecondaryIndexes'' = Some (PDict gs)" "distinct (map fst gs)"
      "map_of gs g = Some (PDict e')" "single_figure e' n'"
    then have "gsi_entries d = gs" by (simp add: gsi_entries_def)
    with g show "gsi_usage_of (gsi_consumption (snd (add_consumption_join operation cc self))) g
        = add_usage (gsi_usage_of (gsi_consumption self) g)
            (classified (starts_with operation ''get_'' \<or> starts_with operation ''query_''
                         \<or> starts_with operation ''scan_'') n')"
      "gsi_usage_of (gsi_consumption (snd (add_consumption_query operation cc self))) g
        = add_usage (gsi_usage_of (gsi_consumption self) g)
            (classified (starts_with operation ''get_'' \<or> starts_with operation ''query_'') n')"
      by (simp_all add: j q u gsi_usage_of_fold entry_pair_single_figure is_read_join_def
          is_read_query_def)
  next
    assume "map_of d ''CapacityUnits'' = Some (PNum t)"
    then show "(total_rcu (snd (add_consumption_join operation cc self)),
       total_wcu (snd (add_consumption_join operation cc self)))
        = (total_rcu self
             + fst (classified (starts_with operation ''get_'' \<or> starts_with operation ''query_''
                                \<or> starts_with operation ''scan_'') t),
           total_wcu self
             + snd (classified (starts_with operation ''get_'' \<or> starts_with operation ''query_''
                                \<or> starts_with operation ''scan_'') t))"
      "(total_rcu (snd (add_consumption_query operation cc self)),
          total_wcu (snd (add_consumption_query operation cc self)))
        = (total_rcu self
             + fst (classified (starts_with operation ''get_'' \<or> starts_with operation ''query_'') t),
           total_wcu self
             + snd (classified (starts_with operation ''get_'' \<or> starts_with operation ''query_'') t))"
      by (simp_all add: j q u total_pair_figure is_read_join_def is_read_query_def)
  qed
qed

text \<open>
  The theorem at the report of a query on \<open>OpenGamesIndex\<close> that gives one figure for the
  table, one for the index and one overall.
\<close>

theorem single_figure_classified_by_name_witness:
  "well_typed_report
     [(''CapacityUnits'', PNum 5), (''Table'', PDict [(''CapacityUnits'', PNum 2)]),
      (''GlobalSecondaryIndexes'', PDict [(''OpenGamesIndex'', PDict [(''CapacityUnits'', PNum 3)])])]
   \<and> single_figure [(''CapacityUnits'', PNum 2)] 2
   \<and> distinct (map fst [(''OpenGamesIndex'', PDict [(''CapacityUnits'', PNum 3)])])
   \<and> single_figure [(''CapacityUnits'', PNum 3)] 3
   \<and> table_consumption (snd (add_consumption_join ''query_open_games_map_Neon City''
         (PDict [(''CapacityUnits'', PNum 5), (''Table'', PDict [(''CapacityUnits'', PNum 2)]),
                 (''GlobalSecondaryIndexes'',
                  PDict [(''OpenGamesIndex'', PDict [(''CapacityUnits'', PNum 3)])])]) reset))
       = \<lparr>rcu = 2, wcu = 0\<rparr>
   \<and> gsi_usage_of (gsi_consumption (snd (add_consumption_join ''query_open_games_map_Neon City''
         (PDict [(''CapacityUnits'', PNum 5), (''Table'', PDict [(''CapacityUnits'', PNum 2)]),
                 (''GlobalSecondaryIndexes'',
                  PDict [(''OpenGamesIndex'', PDict [(''CapacityUnits'', PNum 3)])])]) reset)))
         ''OpenGamesIndex''
       = \<lparr>rcu = 3, wcu = 0\<rparr>
   \<and> (total_rcu (snd (add_consumption_join ''query_open_games_map_Neon City''
         (PDict [(''CapacityUnits'', PNum 5), (''Table'', PDict [(''CapacityUnits'', PNum 2)]),
                 (''GlobalSecondaryIndexes'',
                  PDict [(''OpenGamesIndex'', PDict [(''CapacityUnits'', PNum 3)])])]) reset)),
       total_wcu (snd (add_consumption_join ''query_open_games_map_Neon City''
         (PDict [(''CapacityUnits'', PNum 5), (''Table'', PDict [(''CapacityUnits'', PNum 2)]),
                 (''GlobalSecondaryIndexes'',
                  PDict [(''OpenGamesIndex'', PDict [(''CapacityUnits'', PNum 3)])])]) reset)))
       = (5, 0)"
proof -
  let ?gs = "[(''OpenGamesIndex'', PDict [(''CapacityUnits'', PNum 3)])]"
  let ?d = "[(''CapacityUnits'', PNum 5), (''Table'', PDict [(''CapacityUnits'', PNum 2)]),
             (''GlobalSecondaryIndexes'', PDict ?gs)]"
  let ?op = "''query_open_games_map_Neon City''"
  have wt: "well_typed_report ?d"
    by (simp add: well_typed_report_def well_typed_entry_def dict_get_def)
  have h: "single_figure [(''CapacityUnits'', PNum 2)] 2" "distinct (map fst ?gs)"
    "single_figure [(''CapacityUnits'', PNum 3)] 3"
    "map_of ?d ''Table'' = Some (PDict [(''CapacityUnits'', PNum 2)])"
    "map_of ?d ''GlobalSecondaryIndexes'' = Some (PDict ?gs)"
    "map_of ?gs ''OpenGamesIndex'' = Some (PDict [(''CapacityUnits'', PNum 3)])"
    "map_of ?d ''CapacityUnits'' = Some (PNum 5)"
    by (simp_all add: single_figure_def)
  have rd: "starts_with ?op ''query_''"
    by (simp add: starts_with_def)
  from single_figure_classified_by_name
         [OF wt, where cc = "PDict ?d" and operation = ?op and self = reset
            and e = "[(''CapacityUnits'', PNum 2)]" and n = 2 and gs = ?gs
            and g = "''OpenGamesIndex''" and e' = "[(''CapacityUnits'', PNum 3)]" and n' = 3
            and t = 5] h rd
  have "table_consumption (snd (add_consumption_join ?op (PDict ?d) reset))
          = add_usage (table_consumption reset) (classified True 2)"
    "gsi_usage_of (gsi_consumption (snd (add_consumption_join ?op (PDict ?d) reset)))
         ''OpenGamesIndex''
          = add_usage (gsi_usage_of (gsi_consumption reset) ''OpenGamesIndex'') (classified True 3)"
    "(total_rcu (snd (add_consumption_join ?op (PDict ?d) reset)),
       total_wcu (snd (add_consumption_join ?op (PDict ?d) reset)))
       = (total_rcu reset + fst (classified True 5), total_wcu reset + snd (classified True 5))"
    by simp_all
  then show ?thesis
    using wt h(1-3)
    by (simp add: add_usage_def classified_def reset_def zero_usage_def gsi_usage_of_def)
qed

text \<open>
  C5 as stated fails in \<open>query_user_games.py\<close>: under the name \<open>scan_users\<close>, of the scan
  family, the single figures of the table, of the index and of the report all go to the write
  units.
\<close>

theorem scan_name_counts_as_write_counterexample:
  "starts_with ''scan_users'' ''scan_''
   \<and> add_consumption_query ''scan_users''
        (PDict [(''CapacityUnits'', PNum 5), (''Table'', PDict [(''CapacityUnits'', PNum 2)]),
                (''GlobalSecondaryIndexes'',
                 PDict [(''InvertedIndex'', PDict [(''CapacityUnits'', PNum 3)])])]) reset
     = (Inr (), \<lparr>total_rcu = 0, total_wcu = 5, table_consumption = \<lparr>rcu = 0, wcu = 2\<rparr>,
                 gsi_consumption = [(''InvertedIndex'', \<lparr>rcu = 0, wcu = 3\<rparr>)],
                 operations = [''scan_users''], status = ''success'', error = None\<rparr>)"
  by (simp add: run_defs)

subsection \<open>The overall totals of a list item\<close>

text \<open>
  C4 at a list item with no top-level \<open>CapacityUnits\<close>, a base-table entry and an index entry
  that reports both read and write units, under a write-shaped name. The list branch of
  \<open>join_game_with_opengamesindex.py\<close> adds 1 read unit to the index accumulator and none to
  the total read units: its second pass over the indexes takes the write side only. The
  single-report branch of the same script, and the list branch of \<open>query_user_games.py\<close>, add
  the sum of the components, 1.
\<close>

theorem list_item_total_misses_index_units:
  "add_consumption_join ''join_game_transaction''
     (PList [PDict [(''Table'', PDict [(''WriteCapacityUnits'', PNum 2)]),
                    (''GlobalSecondaryIndexes'',
                     PDict [(''InvertedIndex'',
                             PDict [(''ReadCapacityUnits'', PNum 1),
                                    (''WriteCapacityUnits'', PNum 2)])])]]) reset
     = (Inr (), \<lparr>total_rcu = 0, total_wcu = 4, table_consumption = \<lparr>rcu = 0, wcu = 2\<rparr>,
                 gsi_consumption = [(''InvertedIndex'', \<lparr>rcu = 1, wcu = 2\<rparr>)],
                 operations = [''join_game_transaction''], status = ''success'', error = None\<rparr>)
   \<and> add_consumption_join ''join_game_transaction''
     (PDict [(''Table'', PDict [(''WriteCapacityUnits'', PNum 2)]),
             (''GlobalSecondaryIndexes'',
              PDict [(''InvertedIndex'',
                      PDict [(''ReadCapacityUnits'', PNum 1),
                             (''WriteCapacityUnits'', PNum 2)])])]) reset
     = (Inr (), \<lparr>total_rcu = 1, total_wcu = 4, table_consumption = \<lparr>rcu = 0, wcu = 2\<rparr>,
                 gsi_consumption = [(''InvertedIndex'', \<lparr>rcu = 1, wcu = 2\<rparr>)],
                 operations = [''join_game_transaction''], status = ''success'', error = None\<rparr>)
   \<and> add_consumption_query ''join_game_transaction''
     (PList [PDict [(''Table'', PDict [(''WriteCapacityUnits'', PNum 2)]),
                    (''GlobalSecondaryIndexes'',
                     PDict [(''InvertedIndex'',
                             PDict [(''ReadCapacityUnits'', PNum 1),
                                    (''WriteCapacityUnits'', PNum 2)])])]]) reset
     = (Inr (), \<lparr>total_rcu = 1, total_wcu = 4, table_consumption = \<lparr>rcu = 0, wcu = 2\<rparr>,
                 gsi_consumption = [(''InvertedIndex'', \<lparr>rcu = 1, wcu = 2\<rparr>)],
                 operations = [''join_game_transaction''], status = ''success'', error = None\<rparr>)"
  by (simp add: run_defs)

section \<open>Properties of join_game_for_user\<close>

lemma keys_differ [simp]:
  "(''GAME#'' @ g, ''USER#'' @ u) \<noteq> (''GAME#'' @ g', ''#METADATA#'' @ g')"
  "(''GAME#'' @ g', ''#METADATA#'' @ g') \<noteq> (''GAME#'' @ g, ''USER#'' @ u)"
  by simp_all

lemma not_exists_key [simp]: "condition_holds x (Attribute_not_exists ''SK'') = (x = None)"
  by (cases x) simp_all

lemma join_transaction_passes:
  "list_all (statement_passes db) (join_transaction g u)
     = (\<not> enrolled db g u \<and> (\<exists>n. people_of db g = Some n \<and> n \<le> MAX_PLAYERS - 1))"
  by (auto simp: join_transaction_def statement_passes_def item_key_def enrolled_def people_of_def
      split: option.splits attrval.splits)

lemma transact_join:
  "transact_write_items db (join_transaction g u)
     = (if \<not> enrolled db g u \<and> (\<exists>n. people_of db g = Some n \<and> n \<le> MAX_PLAYERS - 1)
        then Inr (joined db g u)
        else Inl (transaction_cancelled db (join_transaction g u)))"
proof -
  have "distinct (map statement_key (join_transaction g u))"
    by (simp add: join_transaction_def item_key_def)
  then show ?thesis
    by (simp add: transact_write_items_def join_transaction_passes joined_def)
qed

lemma people_of_joined:
  assumes "people_of db g = Some n"
  shows "people_of (joined db g u) g' = (if g' = g then Some (n + 1) else people_of db g')"
  using assms
  by (auto simp: joined_def join_transaction_def item_key_def people_of_def update_conv'
      split: option.splits attrval.splits)

lemma enrolled_joined:
  assumes "people_of db g = Some n"
  shows "enrolled (joined db g u) g' u' = (enrolled db g' u' \<or> (g' = g \<and> u' = u))"
  using assms
  by (auto simp: joined_def join_transaction_def item_key_def people_of_def enrolled_def
      split: option.splits attrval.splits)

lemma row_joined:
  assumes "people_of db g = Some n" and "enrolled db g' u'" and "\<not> enrolled db g u"
  shows "joined db g u (''GAME#'' @ g', ''USER#'' @ u') = db (''GAME#'' @ g', ''USER#'' @ u')"
  using assms
  by (auto simp: joined_def join_transaction_def item_key_def people_of_def enrolled_def
      split: option.splits attrval.splits)

lemma join_store:
  "fst (snd (join_game_for_user db game_data username consumed self))
     = (case extract_game_id game_data of
          None \<Rightarrow> db
        | Some g \<Rightarrow>
            if g \<noteq> [] \<and> \<not> enrolled db g username
               \<and> (\<exists>n. people_of db g = Some n \<and> n \<le> MAX_PLAYERS - 1)
            then joined db g username else db)"
  by (auto simp: join_game_for_user_def transact_join split: option.splits sum.splits prod.splits)

lemma join_people_step:
  assumes "people_of db g = Some n"
  shows "people_of (fst (snd (join_game_for_user db game_data username consumed self))) g = Some n
       \<or> (n \<le> MAX_PLAYERS - 1
          \<and> people_of (fst (snd (join_game_for_user db game_data username consumed self))) g
              = Some (n + 1))"
proof (cases "extract_game_id game_data")
  case None
  with assms show ?thesis by (simp add: join_store)
next
  case (Some g0)
  show ?thesis
  proof (cases "g0 \<noteq> [] \<and> \<not> enrolled db g0 username
                \<and> (\<exists>m. people_of db g0 = Some m \<and> m \<le> MAX_PLAYERS - 1)")
    case True
    then obtain m where m: "people_of db g0 = Some m" "m \<le> MAX_PLAYERS - 1" by blast
    from True Some have "fst (snd (join_game_for_user db game_data username consumed self))
                           = joined db g0 username"
      by (simp add: join_store)
    with m assms show ?thesis
      by (auto simp: people_of_joined [OF m(1)])
  next
    case False
    with Some have "fst (snd (join_game_for_user db game_data username consumed self)) = db"
      by (auto simp: join_store)
    with assms show ?thesis by simp
  qed
qed

lemma join_attempts_people:
  "people_of db g = Some n \<Longrightarrow> n \<le> MAX_PLAYERS \<Longrightarrow>
   \<exists>n'. people_of (join_attempts db attempts) g = Some n' \<and> n \<le> n' \<and> n' \<le> MAX_PLAYERS"
proof (induction attempts arbitrary: db n)
  case Nil
  then show ?case by simp
next
  case (Cons a attempts)
  obtain game_data username consumed self where a: "a = (game_data, username, consumed, self)"
    by (cases a)
  let ?db = "fst (snd (join_game_for_user db game_data username consumed self))"
  from join_people_step [OF Cons.prems(1), of game_data username consumed self]
  consider "people_of ?db g = Some n"
    | "n \<le> MAX_PLAYERS - 1" "people_of ?db g = Some (n + 1)" by blast
  then show ?case
  proof cases
    case 1
    from Cons.IH [OF 1 Cons.prems(2)] show ?thesis by (simp add: a)
  next
    case 2
    then have "n + 1 \<le> MAX_PLAYERS" by simp
    from Cons.IH [OF 2(2) this] obtain n' where
      "people_of (join_attempts ?db attempts) g = Some n'" "n + 1 \<le> n'" "n' \<le> MAX_PLAYERS"
      by blast
    then show ?thesis by (auto simp: a)
  qed
qed

lemma join_at_capacity:
  assumes "people_of db g = Some MAX_PLAYERS" and "extract_game_id game_data = Some g"
  shows "join_game_for_user db game_data username consumed self
           = (False, db,
              set_error (if g = [] then ''Could not determine game ID''
                         else ''Transaction error: ''
                              @ str_exc (transaction_cancelled db (join_transaction g username)))
                self)"
  using assms by (simp add: join_game_for_user_def transact_join)

text \<open>
  C1. A join changes a game's player count only by adding exactly 1, and only when the count
  before was at most 499; so from a count of at most 500, after any sequence of join attempts
  (the store applies one transaction at a time, which covers the attempts of concurrent
  callers in whatever order they reach it) the count is still at most 500; and an attempt on
  a game with 500 players returns false, with the error recorded and the store as it was.
\<close>

theorem player_count_never_exceeds_capacity:
  "(people_of db g = Some n \<and> n \<le> MAX_PLAYERS \<longrightarrow>
      (\<exists>n'. people_of (join_attempts db attempts) g = Some n' \<and> n \<le> n' \<and> n' \<le> MAX_PLAYERS))
   \<and> (people_of db g = Some n \<longrightarrow>
        people_of (fst (snd (join_game_for_user db game_data username consumed self))) g = Some n
        \<or> (n \<le> MAX_PLAYERS - 1
           \<and> people_of (fst (snd (join_game_for_user db game_data username consumed self))) g
               = Some (n + 1)))
   \<and> (people_of db g = Some MAX_PLAYERS \<and> extract_game_id game_data = Some g \<longrightarrow>
        (\<exists>msg. join_game_for_user db game_data username consumed self
                 = (False, db, set_error msg self)))
   \<and> MAX_PLAYERS = 500"
  using join_attempts_people [of db g n attempts]
        join_people_step [of db g n game_data username consumed self]
        join_at_capacity [of db g game_data username consumed self]
  by (auto simp: MAX_PLAYERS_def)

text \<open>
  The theorem at a game with 499 players that alice, bob and carol try to join, one after the
  other: alice gets in, the count stays 500 after bob and carol, and an attempt at 500
  players is refused.
\<close>

theorem player_count_never_exceeds_capacity_witness:
  "people_of (Map.empty((''GAME#g1'', ''#METADATA#g1'') \<mapsto>
                [(''PK'', S ''GAME#g1''), (''SK'', S ''#METADATA#g1''), (''people'', N 499)]))
       ''g1'' = Some 499
   \<and> (499 :: int) \<le> MAX_PLAYERS
   \<and> people_of
        (join_attempts
           (Map.empty((''GAME#g1'', ''#METADATA#g1'') \<mapsto>
                [(''PK'', S ''GAME#g1''), (''SK'', S ''#METADATA#g1''), (''people'', N 499)]))
           [([(''PK'', S ''GAME#g1'')], ''alice'', None, reset),
            ([(''PK'', S ''GAME#g1'')], ''bob'', None, reset),
            ([(''PK'', S ''GAME#g1'')], ''carol'', None, reset)])
        ''g1'' = Some 500
   \<and> people_of (Map.empty((''GAME#g1'', ''#METADATA#g1'') \<mapsto>
                [(''PK'', S ''GAME#g1''), (''SK'', S ''#METADATA#g1''), (''people'', N 500)]))
       ''g1'' = Some MAX_PLAYERS
   \<and> extract_game_id [(''PK'', S ''GAME#g1'')] = Some ''g1''
   \<and> fst (join_game_for_user
            (Map.empty((''GAME#g1'', ''#METADATA#g1'') \<mapsto>
                [(''PK'', S ''GAME#g1''), (''SK'', S ''#METADATA#g1''), (''people'', N 500)]))
            [(''PK'', S ''GAME#g1'')] ''bob'' None reset) = False
   \<and> fst (snd (join_game_for_user
            (Map.empty((''GAME#g1'', ''#METADATA#g1'') \<mapsto>
                [(''PK'', S ''GAME#g1''), (''SK'', S ''#METADATA#g1''), (''people'', N 500)]))
            [(''PK'', S ''GAME#g1'')] ''bob'' None reset))
       = Map.empty((''GAME#g1'', ''#METADATA#g1'') \<mapsto>
                [(''PK'', S ''GAME#g1''), (''SK'', S ''#METADATA#g1''), (''people'', N 500)])"
proof -
  let ?db = "\<lambda>n. Map.empty((''GAME#g1'', ''#METADATA#g1'') \<mapsto>
                [(''PK'', S ''GAME#g1''), (''SK'', S ''#METADATA#g1''), (''people'', N n)])"
  let ?gd = "[(''PK'', S ''GAME#g1'')]"
  let ?attempts = "[(?gd, ''alice'', None, reset), (?gd, ''bob'', None, reset),
                    (?gd, ''carol'', None, reset)]"
  have p: "people_of (?db 499) ''g1'' = Some 499" "people_of (?db 500) ''g1'' = Some MAX_PLAYERS"
    "(499 :: int) \<le> MAX_PLAYERS"
    by (simp_all add: people_of_def MAX_PLAYERS_def)
  have g: "extract_game_id ?gd = Some ''g1''"
    by (simp add: extract_game_id_def starts_with_def)
  have e: "\<not> enrolled (?db 499) ''g1'' ''alice''"
    by (simp add: enrolled_def)
  have s1: "fst (snd (join_game_for_user (?db 499) ?gd ''alice'' None reset))
              = joined (?db 499) ''g1'' ''alice''"
    using p(1) e by (simp add: join_store g MAX_PLAYERS_def)
  have p1: "people_of (joined (?db 499) ''g1'' ''alice'') ''g1'' = Some 500"
    using people_of_joined [OF p(1), of "''alice''" "''g1''"] by simp
  from player_count_never_exceeds_capacity
         [where db = "joined (?db 499) ''g1'' ''alice''" and g = "''g1''" and n = 500
            and attempts = "[(?gd, ''bob'', None, reset), (?gd, ''carol'', None, reset)]"] p1
  obtain n' where "people_of (join_attempts (joined (?db 499) ''g1'' ''alice'')
                     [(?gd, ''bob'', None, reset), (?gd, ''carol'', None, reset)]) ''g1''
          = Some n'" "500 \<le> n'" "n' \<le> MAX_PLAYERS"
    unfolding MAX_PLAYERS_def by blast
  then have "people_of (join_attempts (joined (?db 499) ''g1'' ''alice'')
                     [(?gd, ''bob'', None, reset), (?gd, ''carol'', None, reset)]) ''g1''
          = Some 500"
    by (simp add: MAX_PLAYERS_def)
  then have a: "people_of (join_attempts (?db 499) ?attempts) ''g1'' = Some 500"
    by (simp add: s1)
  from player_count_never_exceeds_capacity
         [where db = "?db 500" and g = "''g1''" and game_data = ?gd and username = "''bob''"
            and consumed = None and self = reset] p(2) g
  obtain msg where "join_game_for_user (?db 500) ?gd ''bob'' None reset
                      = (False, ?db 500, set_error msg reset)"
    by blast
  with p g a show ?thesis by simp
qed

lemma join_row_step:
  assumes "enrolled db g u"
  shows "fst (snd (join_game_for_user db game_data username consumed self))
           (''GAME#'' @ g, ''USER#'' @ u) = db (''GAME#'' @ g, ''USER#'' @ u)"
proof (cases "extract_game_id game_data")
  case None
  then show ?thesis by (simp add: join_store)
next
  case (Some g0)
  show ?thesis
  proof (cases "g0 \<noteq> [] \<and> \<not> enrolled db g0 username
                \<and> (\<exists>m. people_of db g0 = Some m \<and> m \<le> MAX_PLAYERS - 1)")
    case True
    then obtain m where m: "people_of db g0 = Some m" and e: "\<not> enrolled db g0 username"
      by blast
    from True Some have "fst (snd (join_game_for_user db game_data username consumed self))
                           = joined db g0 username"
      by (simp add: join_store)
    with row_joined [OF m assms e] show ?thesis by simp
  next
    case False
    with Some have "fst (snd (join_game_for_user db game_data username consumed self)) = db"
      by (auto simp: join_store)
    then show ?thesis by simp
  qed
qed

lemma join_attempts_row:
  "enrolled db g u \<Longrightarrow>
   join_attempts db attempts (''GAME#'' @ g, ''USER#'' @ u) = db (''GAME#'' @ g, ''USER#'' @ u)"
proof (induction attempts arbitrary: db)
  case Nil
  then show ?case by simp
next
  case (Cons a attempts)
  obtain game_data username consumed self where a: "a = (game_data, username, consumed, self)"
    by (cases a)
  let ?db = "fst (snd (join_game_for_user db game_data username consumed self))"
  have row: "?db (''GAME#'' @ g, ''USER#'' @ u) = db (''GAME#'' @ g, ''USER#'' @ u)"
    by (rule join_row_step [OF Cons.prems])
  with Cons.prems have "enrolled ?db g u" by (simp add: enrolled_def)
  from Cons.IH [OF this] row show ?case by (simp add: a)
qed

lemma join_when_enrolled:
  assumes "enrolled db g username" and "extract_game_id game_data = Some g"
  shows "join_game_for_user db game_data username consumed self
           = (False, db,
              set_error (if g = [] then ''Could not determine game ID''
                         else ''Transaction error: ''
                              @ str_exc (transaction_cancelled db (join_transaction g username)))
                self)"
  using assms by (simp add: join_game_for_user_def transact_join)

lemma join_all_or_nothing:
  "fst (snd (join_game_for_user db game_data username consumed self)) = db
   \<or> (\<exists>g n. extract_game_id game_data = Some g \<and> \<not> enrolled db g username
            \<and> people_of db g = Some n
            \<and> fst (snd (join_game_for_user db game_data username consumed self))
                = joined db g username
            \<and> enrolled (joined db g username) g username
            \<and> people_of (joined db g username) g = Some (n + 1))"
proof (cases "extract_game_id game_data")
  case None
  then show ?thesis by (simp add: join_store)
next
  case (Some g0)
  show ?thesis
  proof (cases "g0 \<noteq> [] \<and> \<not> enrolled db g0 username
                \<and> (\<exists>m. people_of db g0 = Some m \<and> m \<le> MAX_PLAYERS - 1)")
    case True
    then obtain m where m: "people_of db g0 = Some m" and e: "\<not> enrolled db g0 username"
      by blast
    from True Some have "fst (snd (join_game_for_user db game_data username consumed self))
                           = joined db g0 username"
      by (simp add: join_store)
    with Some m e people_of_joined [OF m, of username g0] enrolled_joined [OF m, of username g0 username]
    show ?thesis by auto
  next
    case False
    with Some have "fst (snd (join_game_for_user db game_data username consumed self)) = db"
      by (auto simp: join_store)
    then show ?thesis by simp
  qed
qed

lemma join_success:
  assumes "fst (join_game_for_user db game_data username consumed self)"
  shows "\<exists>g. extract_game_id game_data = Some g \<and> \<not> enrolled db g username
             \<and> enrolled (fst (snd (join_game_for_user db game_data username consumed self)))
                  g username"
proof -
  from assms obtain g where g: "extract_game_id game_data = Some g" "g \<noteq> []"
    by (auto simp: join_game_for_user_def split: option.splits if_splits)
  with assms have c: "\<not> enrolled db g username"
    "\<exists>n. people_of db g = Some n \<and> n \<le> MAX_PLAYERS - 1"
    by (auto simp: join_game_for_user_def transact_join split: if_splits)
  then obtain n where n: "people_of db g = Some n" by blast
  from g c have "fst (snd (join_game_for_user db game_data username consumed self))
                   = joined db g username"
    by (simp add: join_store)
  with g c enrolled_joined [OF n, of username g username] show ?thesis by auto
qed

text \<open>
  C2. A join attempt for a user already enrolled in the game returns false, leaves the store
  as it was (no new row, the same player count) and sets the tracker to failed with the
  conflict as its error. A join writes both statements or none: afterwards the store is
  either unchanged, or it has the new membership row and a player count one higher. A join
  that returns true found the user not enrolled and leaves the user enrolled. Once a
  membership row exists, no sequence of join attempts changes it.
\<close>

theorem membership_row_written_once:
  "(enrolled db g username \<and> extract_game_id game_data = Some g \<longrightarrow>
      join_game_for_user db game_data username consumed self
        = (False, db,
           set_error (if g = [] then ''Could not determine game ID''
                      else ''Transaction error: ''
                           @ str_exc (transaction_cancelled db (join_transaction g username)))
             self))
   \<and> (fst (snd (join_game_for_user db game_data username consumed self)) = db
       \<or> (\<exists>g' n. extract_game_id game_data = Some g' \<and> \<not> enrolled db g' username
              \<and> people_of db g' = Some n
              \<and> fst (snd (join_game_for_user db game_data username consumed self))
                  = joined db g' username
              \<and> enrolled (joined db g' username) g' username
              \<and> people_of (joined db g' username) g' = Some (n + 1)))
   \<and> (fst (join_game_for_user db game_data username consumed self) \<longrightarrow>
        (\<exists>g'. extract_game_id game_data = Some g' \<and> \<not> enrolled db g' username
              \<and> enrolled (fst (snd (join_game_for_user db game_data username consumed self)))
                   g' username))
   \<and> (enrolled db g u \<longrightarrow>
        enrolled (join_attempts db attempts) g u
        \<and> join_attempts db attempts (''GAME#'' @ g, ''USER#'' @ u)
            = db (''GAME#'' @ g, ''USER#'' @ u))"
proof (intro conjI impI)
  assume "enrolled db g username \<and> extract_game_id game_data = Some g"
  then show "join_game_for_user db game_data username consumed self
        = (False, db,
           set_error (if g = [] then ''Could not determine game ID''
                      else ''Transaction error: ''
                           @ str_exc (transaction_cancelled db (join_transaction g username)))
             self)"
    by (simp add: join_when_enrolled)
next
  show "fst (snd (join_game_for_user db game_data username consumed self)) = db
       \<or> (\<exists>g' n. extract_game_id game_data = Some g' \<and> \<not> enrolled db g' username
              \<and> people_of db g' = Some n
              \<and> fst (snd (join_game_for_user db game_data username consumed self))
                  = joined db g' username
              \<and> enrolled (joined db g' username) g' username
              \<and> people_of (joined db g' username) g' = Some (n + 1))"
    by (rule join_all_or_nothing)
next
  assume "fst (join_game_for_user db game_data username consumed self)"
  then show "\<exists>g'. extract_game_id game_data = Some g' \<and> \<not> enrolled db g' username
              \<and> enrolled (fst (snd (join_game_for_user db game_data username consumed self)))
                   g' username"
    by (rule join_success)
next
  assume e: "enrolled db g u"
  from join_attempts_row [OF e, of attempts]
  show "join_attempts db attempts (''GAME#'' @ g, ''USER#'' @ u)
            = db (''GAME#'' @ g, ''USER#'' @ u)" .
  with e show "enrolled (join_attempts db attempts) g u"
    by (simp add: enrolled_def)
qed

text \<open>
  The theorem at an open game with no player that alice joins twice: the first attempt
  succeeds, the second returns false, leaves the store as the first left it and marks the
  tracker failed.
\<close>

theorem membership_row_written_once_witness:
  "fst (join_game_for_user
          (Map.empty((''GAME#g1'', ''#METADATA#g1'') \<mapsto>
              [(''PK'', S ''GAME#g1''), (''SK'', S ''#METADATA#g1''), (''people'', N 0)]))
          [(''game_id'', S ''g1'')] ''alice'' None reset)
   \<and> enrolled
        (joined (Map.empty((''GAME#g1'', ''#METADATA#g1'') \<mapsto>
              [(''PK'', S ''GAME#g1''), (''SK'', S ''#METADATA#g1''), (''people'', N 0)]))
           ''g1'' ''alice'') ''g1'' ''alice''
   \<and> extract_game_id [(''game_id'', S ''g1'')] = Some ''g1''
   \<and> fst (join_game_for_user
            (joined (Map.empty((''GAME#g1'', ''#METADATA#g1'') \<mapsto>
                [(''PK'', S ''GAME#g1''), (''SK'', S ''#METADATA#g1''), (''people'', N 0)]))
               ''g1'' ''alice'')
            [(''game_id'', S ''g1'')] ''alice'' None reset) = False
   \<and> fst (snd (join_game_for_user
            (joined (Map.empty((''GAME#g1'', ''#METADATA#g1'') \<mapsto>
                [(''PK'', S ''GAME#g1''), (''SK'', S ''#METADATA#g1''), (''people'', N 0)]))
               ''g1'' ''alice'')
            [(''game_id'', S ''g1'')] ''alice'' None reset))
       = joined (Map.empty((''GAME#g1'', ''#METADATA#g1'') \<mapsto>
                [(''PK'', S ''GAME#g1''), (''SK'', S ''#METADATA#g1''), (''people'', N 0)]))
               ''g1'' ''alice''
   \<and> status (snd (snd (join_game_for_user
            (joined (Map.empty((''GAME#g1'', ''#METADATA#g1'') \<mapsto>
                [(''PK'', S ''GAME#g1''), (''SK'', S ''#METADATA#g1''), (''people'', N 0)]))
               ''g1'' ''alice'')
            [(''game_id'', S ''g1'')] ''alice'' None reset))) = ''failed''
   \<and> people_of
        (joined (Map.empty((''GAME#g1'', ''#METADATA#g1'') \<mapsto>
              [(''PK'', S ''GAME#g1''), (''SK'', S ''#METADATA#g1''), (''people'', N 0)]))
           ''g1'' ''alice'') ''g1'' = Some 1"
proof -
  let ?db0 = "Map.empty((''GAME#g1'', ''#METADATA#g1'') \<mapsto>
              [(''PK'', S ''GAME#g1''), (''SK'', S ''#METADATA#g1''), (''people'', N 0)])"
  let ?gd = "[(''game_id'', S ''g1'')]"
  have p: "people_of ?db0 ''g1'' = Some 0" and e0: "\<not> enrolled ?db0 ''g1'' ''alice''"
    and g: "extract_game_id ?gd = Some ''g1''"
    by (simp_all add: people_of_def enrolled_def extract_game_id_def)
  have ok: "fst (join_game_for_user ?db0 ?gd ''alice'' None reset)"
    using p e0 g by (simp add: join_game_for_user_def transact_join MAX_PLAYERS_def)
  have e1: "enrolled (joined ?db0 ''g1'' ''alice'') ''g1'' ''alice''"
    and p1: "people_of (joined ?db0 ''g1'' ''alice'') ''g1'' = Some 1"
    using enrolled_joined [OF p, of "''alice''" "''g1''" "''alice''"]
      people_of_joined [OF p, of "''alice''" "''g1''"] by simp_all
  from membership_row_written_once
         [where db = "joined ?db0 ''g1'' ''alice''" and g = "''g1''" and username = "''alice''"
            and game_data = ?gd and consumed = None and self = reset] e1 g
  have "join_game_for_user (joined ?db0 ''g1'' ''alice'') ?gd ''alice'' None reset
          = (False, joined ?db0 ''g1'' ''alice'',
             set_error (''Transaction error: ''
                        @ str_exc (transaction_cancelled (joined ?db0 ''g1'' ''alice'')
                                     (join_transaction ''g1'' ''alice''))) reset)"
    by simp
  with ok e1 p1 g show ?thesis by (simp add: set_error_def)
qed

section \<open>Properties of main\<close>

lemma join_success_tracker:
  assumes "join_game_for_user db game_data username consumed self = (True, db', self')"
  shows "(case consumed of
            None \<Rightarrow> self' = self\<lparr>operations := operations self @ [''join_game_transaction'']\<rparr>
          | Some consumed_capacity \<Rightarrow>
              add_consumption_join ''join_game_transaction'' consumed_capacity self = (Inr (), self'))
         \<and> operations self' = operations self @ [''join_game_transaction'']"
proof -
  from assms obtain g db1 where
    "transact_write_items db (join_transaction g username) = Inr db1"
    by (auto simp: join_game_for_user_def split: option.splits if_splits sum.splits)
  show ?thesis
  proof (cases consumed)
    case None
    with assms show ?thesis
      by (auto simp: join_game_for_user_def split: option.splits if_splits sum.splits)
  next
    case (Some cc)
    with assms have r: "add_consumption_join ''join_game_transaction'' cc self = (Inr (), self')"
      by (auto simp: join_game_for_user_def split: option.splits if_splits sum.splits prod.splits)
    with add_consumption_join_history
           [where operation = "''join_game_transaction''" and cc = cc and self = self]
    have "operations self' = operations self @ [''join_game_transaction'']" by simp
    with r Some show ?thesis by simp
  qed
qed

text \<open>
  C10. When the join at the end of a request returns true, \<open>main\<close> sets the status to
  \<open>success\<close> and clears the error, whatever the queries before it had recorded: the usage
  record it logs has status \<open>success\<close> and no error field, and carries the totals, the usage
  breakdown and the history of the tracker as the queries left it and the join extended it.
\<close>

theorem success_overwrites_earlier_error:
  assumes "find_open_games dynamodb_query selected_map reset = (open_games, self1)"
    and "open_games \<noteq> []"
    and "join_game_for_user db (open_games ! (pick mod length open_games)) user_id consumed self1
           = (True, db', self2)"
  shows "main dynamodb_query selected_map pick user_id consumed db
           = (\<lparr>log_module = MODULE_NAME, log_operations = operations self2,
               log_user_id = user_id, log_rcu = total_rcu self2, log_wcu = total_wcu self2,
               log_table = TABLE_NAME, log_status = ''success'',
               log_table_usage = table_consumption self2,
               log_gsi_usage = (if gsi_consumption self2 \<noteq> [] then Some (gsi_consumption self2)
                                else None),
               log_error = None\<rparr>,
              db', self2\<lparr>status := ''success'', error := None\<rparr>)
         \<and> operations self2 = operations self1 @ [''join_game_transaction'']
         \<and> (case consumed of
               None \<Rightarrow> self2 = self1\<lparr>operations := operations self1 @ [''join_game_transaction'']\<rparr>
             | Some consumed_capacity \<Rightarrow>
                 add_consumption_join ''join_game_transaction'' consumed_capacity self1
                   = (Inr (), self2))"
  using assms join_success_tracker [OF assms(3)]
  by (simp add: main_def log_resource_usage_def)

text \<open>
  The theorem at a request whose first query, for the selected map, raises, whose second
  query finds one open game, and whose join succeeds: the tracker is failed when the join
  starts, and the record logged says success, with no error and with both operations.
\<close>

theorem success_overwrites_earlier_error_witness:
  "find_open_games
     (\<lambda>m. if m = ''Neon City'' then Inl (ClientError ''Throttled'')
          else Inr \<lparr>ConsumedCapacity = Some (PDict [(''CapacityUnits'', PNum 1)]),
                    Items = Some [[(''PK'', S ''GAME#g1'')]], Responses = None\<rparr>)
     ''Neon City'' reset
     = ([[(''PK'', S ''GAME#g1'')]],
        \<lparr>total_rcu = 1, total_wcu = 0, table_consumption = \<lparr>rcu = 0, wcu = 0\<rparr>,
         gsi_consumption = [], operations = [''query_open_games_map_Green Grasslands''],
         status = ''failed'', error = Some ''Throttled''\<rparr>)
   \<and> [[(''PK'', S ''GAME#g1'')]] \<noteq> []
   \<and> fst (join_game_for_user
            (Map.empty((''GAME#g1'', ''#METADATA#g1'') \<mapsto>
                [(''PK'', S ''GAME#g1''), (''SK'', S ''#METADATA#g1''), (''people'', N 0)]))
            ([[(''PK'', S ''GAME#g1'')]] ! (7 mod length [[(''PK'', S ''GAME#g1'')]])) ''alice''
            (Some (PList [PDict [(''CapacityUnits'', PNum 4)]]))
            \<lparr>total_rcu = 1, total_wcu = 0, table_consumption = \<lparr>rcu = 0, wcu = 0\<rparr>,
             gsi_consumption = [], operations = [''query_open_games_map_Green Grasslands''],
             status = ''failed'', error = Some ''Throttled''\<rparr>)
   \<and> fst (main
            (\<lambda>m. if m = ''Neon City'' then Inl (ClientError ''Throttled'')
                 else Inr \<lparr>ConsumedCapacity = Some (PDict [(''CapacityUnits'', PNum 1)]),
                           Items = Some [[(''PK'', S ''GAME#g1'')]], Responses = None\<rparr>)
            ''Neon City'' 7 ''alice'' (Some (PList [PDict [(''CapacityUnits'', PNum 4)]]))
            (Map.empty((''GAME#g1'', ''#METADATA#g1'') \<mapsto>
                [(''PK'', S ''GAME#g1''), (''SK'', S ''#METADATA#g1''), (''people'', N 0)])))
       = \<lparr>log_module = ''join-game'',
          log_operations = [''query_open_games_map_Green Grasslands'', ''join_game_transaction''],
          log_user_id = ''alice'', log_rcu = 1, log_wcu = 4, log_table = ''battle-royale'',
          log_status = ''success'', log_table_usage = \<lparr>rcu = 0, wcu = 0\<rparr>,
          log_gsi_usage = None, log_error = None\<rparr>"
proof -
  let ?q = "\<lambda>m. if m = ''Neon City'' then Inl (ClientError ''Throttled'')
          else Inr \<lparr>ConsumedCapacity = Some (PDict [(''CapacityUnits'', PNum 1)]),
                    Items = Some [[(''PK'', S ''GAME#g1'')]], Responses = None\<rparr>"
  let ?gd = "[(''PK'', S ''GAME#g1'')]"
  let ?db = "Map.empty((''GAME#g1'', ''#METADATA#g1'') \<mapsto>
                [(''PK'', S ''GAME#g1''), (''SK'', S ''#METADATA#g1''), (''people'', N 0)])"
  let ?s1 = "\<lparr>total_rcu = 1, total_wcu = 0, table_consumption = \<lparr>rcu = 0, wcu = 0\<rparr>,
         gsi_consumption = [], operations = [''query_open_games_map_Green Grasslands''],
         status = ''failed'', error = Some ''Throttled''\<rparr>"
  let ?s2 = "\<lparr>total_rcu = 1, total_wcu = 4, table_consumption = \<lparr>rcu = 0, wcu = 0\<rparr>,
         gsi_consumption = [],
         operations = [''query_open_games_map_Green Grasslands'', ''join_game_transaction''],
         status = ''failed'', error = Some ''Throttled''\<rparr>"
  have f: "find_open_games ?q ''Neon City'' reset = ([?gd], ?s1)"
    by (simp add: find_open_games_def get_open_games_by_map_def MAPS_def set_error_def run_defs)
  have p: "people_of ?db ''g1'' = Some 0" and e: "\<not> enrolled ?db ''g1'' ''alice''"
    and g: "extract_game_id ?gd = Some ''g1''"
    by (simp_all add: people_of_def enrolled_def extract_game_id_def starts_with_def)
  have j: "join_game_for_user ?db ([?gd] ! (7 mod length [?gd])) ''alice''
             (Some (PList [PDict [(''CapacityUnits'', PNum 4)]])) ?s1
           = (True, joined ?db ''g1'' ''alice'', ?s2)"
    using p e g
    by (simp add: join_game_for_user_def transact_join MAX_PLAYERS_def run_defs)
  from success_overwrites_earlier_error [OF f _ j] f j
  show ?thesis
    by (simp add: MODULE_NAME_def TABLE_NAME_def)
qed

section \<open>Properties of get_game_details\<close>

lemma digit_char_inj:
  assumes "d < 10" "d' < 10" "digit_char d = digit_char d'"
  shows "d = d'"
proof -
  from assms(3) have "(of_char (digit_char d) :: nat) = of_char (digit_char d')"
    by simp
  then have "(48 + d) mod 256 = (48 + d') mod 256"
    by (simp add: digit_char_def)
  with assms(1,2) show ?thesis by simp
qed

lemma str_nat_not_empty: "str_nat n \<noteq> []"
  by (subst str_nat.simps) simp

lemma str_nat_inj: "str_nat n = str_nat m \<Longrightarrow> n = m"
proof (induction n arbitrary: m rule: str_nat.induct)
  case (1 n)
  show ?case
  proof (cases "n < 10")
    case True
    show ?thesis
    proof (cases "m < 10")
      case m: True
      from "1.prems" True m have "digit_char n = digit_char m"
        by (simp add: str_nat.simps [of n] str_nat.simps [of m])
      with True m show ?thesis by (rule digit_char_inj)
    next
      case m: False
      from "1.prems" True m have "[digit_char n] = str_nat (m div 10) @ [digit_char (m mod 10)]"
        by (simp add: str_nat.simps [of n] str_nat.simps [of m])
      then have "str_nat (m div 10) = []" by simp
      with str_nat_not_empty show ?thesis by blast
    qed
  next
    case False
    show ?thesis
    proof (cases "m < 10")
      case m: True
      from "1.prems" False m have "str_nat (n div 10) @ [digit_char (n mod 10)] = [digit_char m]"
        by (simp add: str_nat.simps [of n] str_nat.simps [of m])
      then have "str_nat (n div 10) = []" by simp
      with str_nat_not_empty show ?thesis by blast
    next
      case m: False
      from "1.prems" False m
      have "str_nat (n div 10) @ [digit_char (n mod 10)]
              = str_nat (m div 10) @ [digit_char (m mod 10)]"
        by (simp add: str_nat.simps [of n] str_nat.simps [of m])
      then have a: "str_nat (n div 10) = str_nat (m div 10)"
        and b: "digit_char (n mod 10) = digit_char (m mod 10)"
        by simp_all
      from "1.IH" [OF False a] have "n div 10 = m div 10" .
      moreover from b have "n mod 10 = m mod 10"
        by (intro digit_char_inj) simp_all
      ultimately show ?thesis
        by (metis div_mult_mod_eq)
    qed
  qed
qed

lemma batch_operation_inj: "inj batch_operation"
  by (rule injI) (simp add: batch_operation_def str_nat_inj)

lemma concat_chunks:
  "concat (map (\<lambda>k. take c (drop (c * k) xs)) [0..<m]) = take (c * m) xs"
proof (induction m)
  case 0
  then show ?case by simp
next
  case (Suc m)
  have "take (c * m + c) xs = take (c * m) xs @ take c (drop (c * m) xs)"
    by (rule take_add)
  with Suc show ?case by (simp add: add.commute)
qed

lemma concat_batches:
  "concat (map (batch_of keys) [0..<batch_count (length keys)]) = keys"
proof -
  have "length keys \<le> 100 * batch_count (length keys)"
    by (simp add: batch_count_def)
  then show ?thesis
    using concat_chunks [of 100 keys "batch_count (length keys)"]
    by (simp add: batch_of_def [abs_def])
qed

lemma length_batch_of:
  "length (batch_of keys k) = min 100 (length keys - 100 * k)"
  by (simp add: batch_of_def)

lemma batch_bounds:
  assumes "k < batch_count (length keys)"
  shows "0 < length (batch_of keys k)" "length (batch_of keys k) \<le> 100"
proof -
  from assms have "100 * k < length keys"
    by (simp add: batch_count_def)
  then show "0 < length (batch_of keys k)" by (simp add: length_batch_of)
  show "length (batch_of keys k) \<le> 100" by (simp add: length_batch_of)
qed

lemma record_batch:
  assumes "report_well_typed response"
  shows "\<exists>self'. (case ConsumedCapacity response of
                   Some consumed_capacity \<Rightarrow>
                     add_consumption_query operation consumed_capacity self
                 | None \<Rightarrow> append_operation operation self) = (Inr (), self')
               \<and> operations self' = operations self @ [operation]"
proof (cases "ConsumedCapacity response")
  case None
  then show ?thesis by (simp add: append_operation_def)
next
  case (Some cc)
  with assms have "well_typed cc" by (simp add: report_well_typed_def)
  with Some show ?thesis by (simp add: add_consumption_query_wt)
qed

lemma batch_loop_runs:
  assumes ok: "\<And>k. k < batch_count (length keys) \<Longrightarrow>
                 batch_get_item k (batch_of keys k) = Inr (resp k) \<and> report_well_typed (resp k)"
  shows "j \<le> batch_count (length keys) \<Longrightarrow>
         \<exists>self'. batch_loop batch_get_item keys (100 * j) acc calls self
                   = (Inr (acc @ concat (map (\<lambda>k. details_of (resp k))
                                           [j..<batch_count (length keys)])),
                      calls @ map (batch_of keys) [j..<batch_count (length keys)], self')
                 \<and> operations self'
                     = operations self @ map batch_operation [j..<batch_count (length keys)]"
proof (induction "batch_count (length keys) - j" arbitrary: j acc calls self)
  case 0
  then have j: "j = batch_count (length keys)" by simp
  then have "\<not> 100 * j < length keys" by (simp add: batch_count_def)
  then show ?case
    by (subst batch_loop.simps) (simp add: j)
next
  case (Suc d)
  then have j: "j < batch_count (length keys)" by simp
  then have lt: "100 * j < length keys" by (simp add: batch_count_def)
  from ok [OF j] have r: "batch_get_item j (batch_of keys j) = Inr (resp j)"
    and wt: "report_well_typed (resp j)" by simp_all
  from record_batch [OF wt, of "batch_operation j" self] obtain self1 where
    s1: "(case ConsumedCapacity (resp j) of
            Some consumed_capacity \<Rightarrow>
              add_consumption_query (batch_operation j) consumed_capacity self
          | None \<Rightarrow> append_operation (batch_operation j) self) = (Inr (), self1)"
    and o1: "operations self1 = operations self @ [batch_operation j]"
    by blast
  from Suc.hyps(2) j have d: "d = batch_count (length keys) - Suc j" by simp
  from j have le: "Suc j \<le> batch_count (length keys)" by simp
  from Suc.hyps(1) [OF d le, of "acc @ details_of (resp j)" "calls @ [batch_of keys j]" self1]
  obtain self' where
    rec: "batch_loop batch_get_item keys (100 * Suc j) (acc @ details_of (resp j))
            (calls @ [batch_of keys j]) self1
          = (Inr ((acc @ details_of (resp j))
                  @ concat (map (\<lambda>k. details_of (resp k)) [Suc j..<batch_count (length keys)])),
             (calls @ [batch_of keys j])
               @ map (batch_of keys) [Suc j..<batch_count (length keys)], self')"
    and o': "operations self'
              = operations self1 @ map batch_operation [Suc j..<batch_count (length keys)]"
    by blast
  have dv: "100 * j div 100 = j" by simp
  have step: "batch_loop batch_get_item keys (100 * j) acc calls self
                = batch_loop batch_get_item keys (100 * Suc j) (acc @ details_of (resp j))
                    (calls @ [batch_of keys j]) self1"
    unfolding batch_loop.simps [of batch_get_item keys "100 * j" acc calls self] dv
    using lt by (simp add: batch_of_def [symmetric] r s1 details_of_def add.commute)
  from j have up: "[j..<batch_count (length keys)] = j # [Suc j..<batch_count (length keys)]"
    by (rule upt_conv_Cons)
  show ?case
    unfolding step rec up
    by (rule exI [of _ self']) (simp add: o' o1)
qed

lemma str_nat_digits: "str_nat 0 = ''0''" "str_nat 1 = ''1''" "str_nat (Suc 0) = ''1''"
  by (simp_all add: str_nat.simps digit_char_def char_of_eq_iff)

text \<open>
  C9. For N game ids, with every bulk read answered (and its consumption report well typed),
  \<open>get_game_details\<close> issues the calls for the batches 0, 1, ... in order, one call per
  batch; there are \<open>(N + 99) div 100\<close> of them, the ceiling of N/100; laid end to end the
  batches are the keys of the ids in input order; each batch has at least 1 and at most 100
  keys; the history gains one operation name per batch, in order and all different; and the
  result is the details of the batches' responses, batch after batch. For 150 ids the batches
  have 100 and 50 keys and the names are \<open>get_game_details_batch_0\<close> and
  \<open>get_game_details_batch_1\<close>.
\<close>

theorem game_details_in_batches:
  "((\<forall>k < batch_count (length game_ids).
       batch_get_item k (batch_of (map game_key game_ids) k) = Inr (resp k)
       \<and> report_well_typed (resp k)) \<longrightarrow>
     (\<exists>self'. get_game_details batch_get_item game_ids self
                = (concat (map (\<lambda>k. details_of (resp k)) [0..<batch_count (length game_ids)]),
                   map (batch_of (map game_key game_ids)) [0..<batch_count (length game_ids)],
                   self')
              \<and> operations self'
                  = operations self @ map batch_operation [0..<batch_count (length game_ids)]))
   \<and> batch_count (length game_ids) = (length game_ids + 99) div 100
   \<and> concat (map (batch_of (map game_key game_ids)) [0..<batch_count (length game_ids)])
       = map game_key game_ids
   \<and> list_all (\<lambda>b. 0 < length b \<and> length b \<le> 100)
        (map (batch_of (map game_key game_ids)) [0..<batch_count (length game_ids)])
   \<and> distinct (map batch_operation [0..<batch_count (length game_ids)])
   \<and> (length game_ids = 150 \<longrightarrow>
        map length (map (batch_of (map game_key game_ids)) [0..<batch_count (length game_ids)])
          = [100, 50]
        \<and> map batch_operation [0..<batch_count (length game_ids)]
          = [''get_game_details_batch_0'', ''get_game_details_batch_1''])"
proof (intro conjI impI)
  let ?keys = "map game_key game_ids"
  let ?nb = "batch_count (length game_ids)"
  assume ok: "\<forall>k < ?nb. batch_get_item k (batch_of ?keys k) = Inr (resp k)
                          \<and> report_well_typed (resp k)"
  show "\<exists>self'. get_game_details batch_get_item game_ids self
                = (concat (map (\<lambda>k. details_of (resp k)) [0..<?nb]),
                   map (batch_of ?keys) [0..<?nb], self')
              \<and> operations self' = operations self @ map batch_operation [0..<?nb]"
  proof (cases "game_ids = []")
    case True
    then show ?thesis
      by (simp add: get_game_details_def batch_count_def)
  next
    case False
    from ok have "\<And>k. k < batch_count (length ?keys) \<Longrightarrow>
                   batch_get_item k (batch_of ?keys k) = Inr (resp k) \<and> report_well_typed (resp k)"
      by simp
    from batch_loop_runs [where keys = ?keys and batch_get_item = batch_get_item and resp = resp
                            and j = 0 and acc = "[]" and calls = "[]" and self = self, OF this]
    obtain self' where
      "batch_loop batch_get_item ?keys 0 [] [] self
         = (Inr (concat (map (\<lambda>k. details_of (resp k)) [0..<?nb])),
            map (batch_of ?keys) [0..<?nb], self')"
      "operations self' = operations self @ map batch_operation [0..<?nb]"
      by auto
    with False show ?thesis
      by (simp add: get_game_details_def)
  qed
next
  show "batch_count (length game_ids) = (length game_ids + 99) div 100"
    by (simp add: batch_count_def)
next
  show "concat (map (batch_of (map game_key game_ids)) [0..<batch_count (length game_ids)])
          = map game_key game_ids"
    using concat_batches [of "map game_key game_ids"] by simp
next
  show "list_all (\<lambda>b. 0 < length b \<and> length b \<le> 100)
        (map (batch_of (map game_key game_ids)) [0..<batch_count (length game_ids)])"
    using batch_bounds [of _ "map game_key game_ids"]
    by (simp add: list_all_iff)
next
  show "distinct (map batch_operation [0..<batch_count (length game_ids)])"
    by (simp add: distinct_map inj_on_subset [OF batch_operation_inj])
next
  assume n: "length game_ids = 150"
  then have nb: "[0..<batch_count (length game_ids)] = [0, 1]"
    by (simp add: batch_count_def upt_rec)
  show "map length (map (batch_of (map game_key game_ids))
                        [0..<batch_count (length game_ids)]) = [100, 50]"
    unfolding nb using n by (simp add: length_batch_of)
  show "map batch_operation [0..<batch_count (length game_ids)]
          = [''get_game_details_batch_0'', ''get_game_details_batch_1'']"
    unfolding nb by (simp add: batch_operation_def str_nat_digits)
qed

text \<open>
  The theorem at 150 game ids, with a store that answers each bulk read with one item per key
  and a report of the units consumed: two calls, of 100 and 50 keys, two operation names, and
  150 details.
\<close>

theorem game_details_in_batches_witness:
  "length (map (\<lambda>i. ''game-'' @ str_nat i) [0..<150]) = 150
   \<and> report_well_typed
        \<lparr>ConsumedCapacity = Some (PList [PDict [(''TableName'', PStr ''battle-royale''),
                                                (''CapacityUnits'', PNum 50)]]),
         Items = None, Responses = Some []\<rparr>
   \<and> map length
        (fst (snd (get_game_details
           (\<lambda>k ks. Inr \<lparr>ConsumedCapacity =
                            Some (PList [PDict [(''TableName'', PStr ''battle-royale''),
                                                (''CapacityUnits'', PNum 50)]]),
                          Items = None,
                          Responses = Some (map (\<lambda>key. [(''PK'', S (fst key)), (''SK'', S (snd key))])
                                              ks)\<rparr>)
           (map (\<lambda>i. ''game-'' @ str_nat i) [0..<150]) reset)))
       = [100, 50]
   \<and> operations
        (snd (snd (get_game_details
           (\<lambda>k ks. Inr \<lparr>ConsumedCapacity =
                            Some (PList [PDict [(''TableName'', PStr ''battle-royale''),
                                                (''CapacityUnits'', PNum 50)]]),
                          Items = None,
                          Responses = Some (map (\<lambda>key. [(''PK'', S (fst key)), (''SK'', S (snd key))])
                                              ks)\<rparr>)
           (map (\<lambda>i. ''game-'' @ str_nat i) [0..<150]) reset)))
       = [''get_game_details_batch_0'', ''get_game_details_batch_1'']
   \<and> length
        (fst (get_game_details
           (\<lambda>k ks. Inr \<lparr>ConsumedCapacity =
                            Some (PList [PDict [(''TableName'', PStr ''battle-royale''),
                                                (''CapacityUnits'', PNum 50)]]),
                          Items = None,
                          Responses = Some (map (\<lambda>key. [(''PK'', S (fst key)), (''SK'', S (snd key))])
                                              ks)\<rparr>)
           (map (\<lambda>i. ''game-'' @ str_nat i) [0..<150]) reset))
       = 150"
proof -
  define ids where "ids = map (\<lambda>i. ''game-'' @ str_nat i) [0..<150]"
  define cc where "cc = Some (PList [PDict [(''TableName'', PStr ''battle-royale''),
                                             (''CapacityUnits'', PNum 50)]])"
  define answer where "answer = (\<lambda>ks. \<lparr>ConsumedCapacity = cc, Items = None,
                         Responses = Some (map (\<lambda>key. [(''PK'', S (fst key)), (''SK'', S (snd key))])
                                             ks)\<rparr>)"
  define store where "store = (\<lambda>(k :: nat) ks. Inr (answer ks) :: response res)"
  define resp where "resp = (\<lambda>k. answer (batch_of (map game_key ids) k))"
  have n: "length ids = 150" by (simp add: ids_def)
  have wt: "report_well_typed (answer ks)" for ks
    by (simp add: answer_def cc_def report_well_typed_def well_typed_report_def
        well_typed_entry_def dict_get_def)
  have ok: "\<forall>k < batch_count (length ids).
              store k (batch_of (map game_key ids) k) = Inr (resp k)
              \<and> report_well_typed (resp k)"
    using wt by (simp add: store_def resp_def)
  note T = game_details_in_batches
         [where game_ids = ids and batch_get_item = store and resp = resp and self = reset]
  from mp [OF conjunct1 [OF T] ok]
  obtain self' where
    run: "get_game_details store ids reset
            = (concat (map (\<lambda>k. details_of (resp k)) [0..<batch_count (length ids)]),
               map (batch_of (map game_key ids)) [0..<batch_count (length ids)], self')"
    and ops: "operations self'
                = operations reset @ map batch_operation [0..<batch_count (length ids)]"
    by blast
  from mp [OF T [THEN conjunct2, THEN conjunct2, THEN conjunct2, THEN conjunct2, THEN conjunct2] n]
  have
    len: "map length (map (batch_of (map game_key ids)) [0..<batch_count (length ids)])
                = [100, 50]"
    and names: "map batch_operation [0..<batch_count (length ids)]
                  = [''get_game_details_batch_0'', ''get_game_details_batch_1'']"
    by (rule conjunct1, rule conjunct2)
  have "batch_count (length ids) = 2" by (simp add: n batch_count_def)
  moreover have "[0..<2] = [0, Suc 0]" by (simp add: upt_rec)
  ultimately have nb: "[0..<batch_count (length ids)] = [0, Suc 0]" by simp
  have d: "length (concat (map (\<lambda>k. details_of (resp k)) [0..<batch_count (length ids)])) = 150"
    unfolding nb by (simp add: resp_def answer_def details_of_def length_batch_of n)
  have wt0: "report_well_typed
               \<lparr>ConsumedCapacity = Some (PList [PDict [(''TableName'', PStr ''battle-royale''),
                                                       (''CapacityUnits'', PNum 50)]]),
                Items = None, Responses = Some []\<rparr>"
    by (simp add: report_well_typed_def well_typed_report_def well_typed_entry_def dict_get_def)
  have "length ids = 150
   \<and> map length (fst (snd (get_game_details store ids reset))) = [100, 50]
   \<and> operations (snd (snd (get_game_details store ids reset)))
       = [''get_game_details_batch_0'', ''get_game_details_batch_1'']
   \<and> length (fst (get_game_details store ids reset)) = 150"
    unfolding run using n len names ops d by (simp add: reset_def)
  with wt0 show ?thesis
    unfolding ids_def store_def answer_def cc_def
    by (elim conjE, intro conjI)
qed

end
